theory Spec2Isabelle
  imports Main "HOL-Library.AList"
begin

section \<open>Values of the program\<close>

text \<open>
  The program is \<^verbatim>\<open>index.js\<close>: it fetches web pages, extracts their readable content
  and bundles them into a PDF, EPUB or HTML file. A JavaScript exception (and a rejected
  promise that is awaited) is a value \<open>Inl e\<close>; \<open>error.message\<close> is the only part of an
  error the program reads.
\<close>

datatype error = Error (message: string)

text \<open>
  The \<open>options\<close> object of the three exported operations. A property that is absent
  (\<open>undefined\<close>) is \<open>None\<close>. The field \<open>output_path_opt\<close> is \<open>options.output\<close>
  (\<open>output\<close> is a reserved word here).
\<close>

record options =
  individual :: bool
  output_path_opt :: "string option"
  style :: "string option"
  css :: "string option"
  template :: "string option"
  sandbox :: bool

text \<open>
  \<open>a || b\<close> on a string that may be absent: the empty string and \<open>undefined\<close> are both
  falsy.
\<close>

definition truthy :: "string option \<Rightarrow> bool" where
  "truthy s = (case s of None \<Rightarrow> False | Some v \<Rightarrow> v \<noteq> [])"

definition or_else :: "string option \<Rightarrow> string \<Rightarrow> string" where
  "or_else s d = (case s of None \<Rightarrow> d | Some v \<Rightarrow> if v = [] then d else v)"

text \<open>
  What \<open>Readability.parse()\<close> returns (or \<open>null\<close>: \<open>None\<close> at the call), and the item
  \<open>{ ...parsed, url }\<close> that \<open>cleanup\<close> returns. Spreading \<open>null\<close> adds no property,
  so every field but \<open>url\<close> is then absent.
\<close>

record readable =
  title :: "string option"
  byline :: "string option"
  content :: "string option"
  excerpt :: "string option"

record article = readable +
  url :: string

definition spread_url :: "readable option \<Rightarrow> string \<Rightarrow> article" where
  "spread_url parsed u =
     (case parsed of
        None \<Rightarrow> \<lparr>title = None, byline = None, content = None, excerpt = None, url = u\<rparr>
      | Some p \<Rightarrow> \<lparr>title = title p, byline = byline p, content = content p,
                   excerpt = excerpt p, url = u\<rparr>)"

subsection \<open>Documents\<close>

text \<open>
  A parsed HTML document, as jsdom gives it: an \<open>html\<close> element holding one \<open>head\<close> and
  one \<open>body\<close>. Attributes are kept in document order; \<open>setAttribute\<close> overwrites an
  attribute in place or appends it. \<open>quirks_mode\<close> is the mode the parser has put the
  document in (quirks mode when the markup has no doctype): in quirks mode a class
  selector matches a class name without regard to the case of ASCII letters.
\<close>

datatype node =
    Text string
  | Element (tag: string) (attrs: "(string \<times> string) list") (kids: "node list")

record document =
  doc_url :: string
  quirks_mode :: bool
  html_attrs :: "(string \<times> string) list"
  head_attrs :: "(string \<times> string) list"
  head :: "node list"
  body_attrs :: "(string \<times> string) list"
  body :: "node list"

definition getAttribute :: "node \<Rightarrow> string \<Rightarrow> string option" where
  "getAttribute el name = (case el of Text _ \<Rightarrow> None | Element _ as _ \<Rightarrow> map_of as name)"

definition setAttribute :: "node \<Rightarrow> string \<Rightarrow> string \<Rightarrow> node" where
  "setAttribute el name v =
     (case el of Text s \<Rightarrow> Text s | Element t as ks \<Rightarrow> Element t (AList.update name v as) ks)"

definition is_element :: "node \<Rightarrow> bool" where
  "is_element n = (case n of Text _ \<Rightarrow> False | Element _ _ _ \<Rightarrow> True)"

text \<open>The tokens of a \<open>class\<close> attribute: split at ASCII whitespace.\<close>

definition is_space :: "char \<Rightarrow> bool" where
  "is_space c = (c = CHR '' '' \<or> c = CHR 0x09 \<or> c = CHR 0x0A \<or> c = CHR 0x0C \<or> c = CHR 0x0D)"

fun tokens :: "string \<Rightarrow> string \<Rightarrow> string list" where
  "tokens cur [] = (if cur = [] then [] else [cur])"
| "tokens cur (c # cs) =
     (if is_space c then (if cur = [] then tokens [] cs else cur # tokens [] cs)
      else tokens (cur @ [c]) cs)"

definition ascii_lower :: "char \<Rightarrow> char" where
  "ascii_lower c =
     (case map_of (zip ''ABCDEFGHIJKLMNOPQRSTUVWXYZ'' ''abcdefghijklmnopqrstuvwxyz'') c of
        None \<Rightarrow> c
      | Some l \<Rightarrow> l)"

text \<open>
  Whether an element with the attributes \<open>as\<close> matches the selector \<open>.c\<close>, in a document
  in quirks mode (\<open>quirks\<close>) or not.
\<close>

definition has_class :: "bool \<Rightarrow> string \<Rightarrow> (string \<times> string) list \<Rightarrow> bool" where
  "has_class quirks c as =
     (case map_of as ''class'' of
        None \<Rightarrow> False
      | Some v \<Rightarrow>
          if quirks then List.member (map (map ascii_lower) (tokens [] v)) (map ascii_lower c)
          else List.member (tokens [] v) c)"

text \<open>
  \<open>querySelector('.c')\<close>: the first element in document order (a parent before its
  children, siblings left to right) that carries the class, or \<open>null\<close>.
\<close>

fun query_class_node :: "bool \<Rightarrow> string \<Rightarrow> node \<Rightarrow> node option"
  and query_class_nodes :: "bool \<Rightarrow> string \<Rightarrow> node list \<Rightarrow> node option" where
  "query_class_node quirks c (Text s) = None"
| "query_class_node quirks c (Element t as ks) =
     (if has_class quirks c as then Some (Element t as ks) else query_class_nodes quirks c ks)"
| "query_class_nodes quirks c [] = None"
| "query_class_nodes quirks c (n # ns) =
     (case query_class_node quirks c n of
        Some el \<Rightarrow> Some el
      | None \<Rightarrow> query_class_nodes quirks c ns)"

definition documentElement :: "document \<Rightarrow> node" where
  "documentElement d =
     Element ''html'' (html_attrs d)
       [Element ''head'' (head_attrs d) (head d), Element ''body'' (body_attrs d) (body d)]"

definition querySelector_class :: "document \<Rightarrow> string \<Rightarrow> node option" where
  "querySelector_class d c = query_class_node (quirks_mode d) c (documentElement d)"

text \<open>
  \<open>querySelector('body :first-child')\<close>: the first element, in document order, that lies
  below \<open>body\<close> and is the first element child of its parent. Every element below
  \<open>body\<close> comes after the first element child of \<open>body\<close> in document order, and text
  nodes do not count for \<open>:first-child\<close>, so this is the first element among the children
  of \<open>body\<close>. The position of the match is returned with it, for the later
  \<open>setAttribute\<close> on the same element.
\<close>

fun first_element :: "node list \<Rightarrow> nat \<Rightarrow> (nat \<times> node) option" where
  "first_element [] i = None"
| "first_element (n # ns) i = (if is_element n then Some (i, n) else first_element ns (Suc i))"

definition querySelector_body_first_child :: "document \<Rightarrow> (nat \<times> node) option" where
  "querySelector_body_first_child d = first_element (body d) 0"


section \<open>The outside world\<close>

text \<open>
  The calls that report to the terminal, fetch, extract, compose, drive the headless
  browser or write a file are recorded, with their arguments, in the order they are made
  (reads of the local file system and of the clock are not). Constant arguments are left
  out: \<open>headless: true\<close> and the viewport of \<open>pup.launch\<close>, \<open>waitUntil: 'load'\<close> of
  \<open>page.goto\<close>, and \<open>preferCSSPageSize\<close>, \<open>displayHeaderFooter\<close> and \<open>printBackground\<close>
  (all \<open>true\<close>) of \<open>page.pdf\<close>.
\<close>

datatype event =
    SpinnerStart string
  | SpinnerSucceed "string option"
  | SpinnerFail string
  | Got string string
  | ReadabilityParse "string list"
  | RenderString string "article list" string string
  | WriteFileSync string string
  | Launch "string list option"
  | NewPage
  | Goto string
  | PagePdf string string string
  | Evaluate
  | NewEpub "string option" string string
  | WriteFile string string
  | BrowserClose

text \<open>
  The state a statement runs in: the module's global \<open>cmd\<close>, the calls made so far, what
  \<open>console.log\<close> prints on account of the statements run so far (kept apart from \<open>trace\<close>,
  because the callback of \<open>fs.writeFile\<close> prints at a later time than the call is made),
  and the number of headless browsers that are running: \<open>pup.launch\<close> starts one,
  \<open>browser.close()\<close> ends one.
\<close>

record world =
  cmd :: string
  trace :: "event list"
  console :: "string list"
  open_browsers :: nat

text \<open>
  The collaborators. What a call to the outside returns may depend on all that happened
  before it, so it is a function of the trace at the call; a library function that only
  computes is a function of its arguments. \<open>'ast\<close> is the stylesheet tree of \<open>css.parse\<close>.
  Three parts are code of this repository that is not in \<^verbatim>\<open>index.js\<close> and are taken as
  parameters as well: the five enhancements of \<^verbatim>\<open>./src/enhancements\<close>,
  \<open>get_style_attribute_value\<close>, and the version string of \<^verbatim>\<open>package.json\<close>.
  \<open>parse_html\<close> is the parser behind \<open>new JSDOM(text)\<close> and \<open>inner_html\<close> the serialiser
  behind \<open>innerHTML\<close> (of the children of an element). \<open>parse_url\<close> is the URL parser
  jsdom gives the \<open>url\<close> option to: it throws for a string that is no URL and returns the
  serialised URL otherwise. \<open>fs.writeFile\<close> has two ways to fail: \<open>write_file\<close> is \<open>Inl e\<close>
  when the call itself throws (an invalid argument), and \<open>Inr err\<close> when it returns, with
  \<open>err\<close> what its callback receives later. \<open>new Epub(option, output_path)\<close> likewise:
  \<open>new_epub\<close> is the constructor call, which may throw, and \<open>epub_assembly\<close> is how the
  assembly it has started ends, some time after the constructor has returned
  (\<open>Some e\<close> when it fails).
\<close>

record 'ast env =
  pkg_version :: string
  got :: "event list \<Rightarrow> string \<Rightarrow> string \<Rightarrow> error + string"
  parse_html :: "string \<Rightarrow> document"
  parse_url :: "string \<Rightarrow> error + string"
  inner_html :: "node list \<Rightarrow> string"
  relativeToAbsoluteURIs :: "document \<Rightarrow> error + document"
  imagesAtFullSize :: "document \<Rightarrow> error + document"
  singleImgToFigure :: "document \<Rightarrow> error + document"
  noUselessHref :: "document \<Rightarrow> error + document"
  wikipediaSpecific :: "document \<Rightarrow> error + document"
  readability :: "document \<Rightarrow> string list \<Rightarrow> error + readable option"
  tmpNameSync :: "event list \<Rightarrow> string \<Rightarrow> error + string"
  resolve :: "event list \<Rightarrow> string \<Rightarrow> error + string"
  readFileSync :: "event list \<Rightarrow> string \<Rightarrow> error + string"
  renderString :: "string \<Rightarrow> article list \<Rightarrow> string \<Rightarrow> string \<Rightarrow> error + string"
  css_parse :: "string \<Rightarrow> error + 'ast"
  get_style_attribute_value :: "'ast \<Rightarrow> string \<Rightarrow> string"
  writeFileSync :: "event list \<Rightarrow> string \<Rightarrow> string \<Rightarrow> error + unit"
  launch :: "event list \<Rightarrow> string list option \<Rightarrow> error + unit"
  newPage :: "event list \<Rightarrow> error + unit"
  goto :: "event list \<Rightarrow> string \<Rightarrow> error + unit"
  page_pdf :: "event list \<Rightarrow> string \<Rightarrow> string \<Rightarrow> string \<Rightarrow> error + unit"
  evaluate :: "event list \<Rightarrow> error + string"
  write_file :: "event list \<Rightarrow> string \<Rightarrow> string \<Rightarrow> error + error option"
  new_epub :: "event list \<Rightarrow> string option \<Rightarrow> string \<Rightarrow> string \<Rightarrow> error + unit"
  epub_assembly :: "event list \<Rightarrow> string option \<Rightarrow> string \<Rightarrow> string \<Rightarrow> error option"
  browser_close :: "event list \<Rightarrow> error + unit"
  slugify :: "string \<Rightarrow> string"
  date_now :: "event list \<Rightarrow> nat"

subsection \<open>Sequencing\<close>

text \<open>
  A statement maps the world to a result and the world after it. \<open>andThen\<close> is \<open>;\<close> (and
  \<open>await\<close>): an exception skips what follows. \<open>catch\<close> is \<open>try { } catch (error) { }\<close>.
\<close>

type_synonym 'a step = "world \<Rightarrow> (error + 'a) \<times> world"

definition ret :: "'a \<Rightarrow> 'a step" where
  "ret x w = (Inr x, w)"

definition throw :: "error \<Rightarrow> 'a step" where
  "throw e w = (Inl e, w)"

definition lift :: "error + 'a \<Rightarrow> 'a step" where
  "lift r w = (r, w)"

definition andThen :: "'a step \<Rightarrow> ('a \<Rightarrow> 'b step) \<Rightarrow> 'b step" where
  "andThen m f w = (case m w of (Inl e, w') \<Rightarrow> (Inl e, w') | (Inr x, w') \<Rightarrow> f x w')"

definition catch :: "'a step \<Rightarrow> (error \<Rightarrow> 'a step) \<Rightarrow> 'a step" where
  "catch m h w = (case m w of (Inl e, w') \<Rightarrow> h e w' | (Inr x, w') \<Rightarrow> (Inr x, w'))"

definition emit :: "event \<Rightarrow> unit step" where
  "emit ev w = (Inr (), w\<lparr>trace := trace w @ [ev]\<rparr>)"

definition call :: "event \<Rightarrow> (event list \<Rightarrow> error + 'a) \<Rightarrow> 'a step" where
  "call ev f w = (f (trace w), w\<lparr>trace := trace w @ [ev]\<rparr>)"

definition console_log :: "string \<Rightarrow> unit step" where
  "console_log s w = (Inr (), w\<lparr>console := console w @ [s]\<rparr>)"

text \<open>Reading the state, and changing it.\<close>

definition gets :: "(world \<Rightarrow> 'a) \<Rightarrow> 'a step" where
  "gets f w = (Inr (f w), w)"

definition modify :: "(world \<Rightarrow> world) \<Rightarrow> unit step" where
  "modify g w = (Inr (), g w)"

text \<open>A read of the outside that is not recorded.\<close>

definition ask :: "(event list \<Rightarrow> error + 'a) \<Rightarrow> 'a step" where
  "ask f w = (f (trace w), w)"

section \<open>Fetch a web page and clean the HTML\<close>

text \<open>
  \<open>new JSDOM(text)\<close>: without a URL the document is at \<open>about:blank\<close>.
  \<open>new JSDOM(text, { url })\<close>: the URL is parsed first, which throws when it is no URL,
  and the document is at the serialised URL.
\<close>

definition new_JSDOM :: "'ast env \<Rightarrow> string \<Rightarrow> document" where
  "new_JSDOM env markup = (parse_html env markup)\<lparr>doc_url := ''about:blank''\<rparr>"

definition new_JSDOM_url :: "'ast env \<Rightarrow> string \<Rightarrow> string \<Rightarrow> error + document" where
  "new_JSDOM_url env markup u =
     (case parse_url env u of
        Inl e \<Rightarrow> Inl e
      | Inr href \<Rightarrow> Inr ((parse_html env markup)\<lparr>doc_url := href\<rparr>))"

text \<open>
  \<open>createDom\<close>: \<open>body.setAttribute(null, null)\<close> sets the attribute named \<open>null\<close> to the
  string \<open>null\<close>.
\<close>

definition createDom :: "'ast env \<Rightarrow> string \<Rightarrow> string \<Rightarrow> error + document" where
  "createDom env u markup =
     (case new_JSDOM_url env markup u of
        Inl e \<Rightarrow> Inl e
      | Inr page \<Rightarrow> Inr (page\<lparr>body_attrs := AList.update ''null'' ''null'' (body_attrs page)\<rparr>))"

text \<open>\<open>enhancePage\<close>: the five enhancements in the order of the array; the first to throw ends it.\<close>

definition enhancePage :: "'ast env \<Rightarrow> document \<Rightarrow> error + document" where
  "enhancePage env page =
     foldl (\<lambda>r enhancement. case r of Inl e \<Rightarrow> Inl e | Inr d \<Rightarrow> enhancement d) (Inr page)
       [relativeToAbsoluteURIs env, imagesAtFullSize env, singleImgToFigure env,
        noUselessHref env, wikipediaSpecific env]"

definition classesToPreserve :: "string list" where
  "classesToPreserve = [''no-href'', ''anchor'']"

text \<open>The \<open>try\<close> block of \<open>cleanup\<close>, then \<open>cleanup\<close> with its \<open>catch\<close>.\<close>

definition cleanup_try :: "'ast env \<Rightarrow> string \<Rightarrow> article step" where
  "cleanup_try env u =
     andThen (emit (SpinnerStart (''Fetching: '' @ u))) (\<lambda>_.
     andThen (call (Got u (''percollate/'' @ pkg_version env))
                (\<lambda>tr. got env tr u (''percollate/'' @ pkg_version env))) (\<lambda>markup.
     andThen (emit (SpinnerSucceed None)) (\<lambda>_.
     andThen (emit (SpinnerStart ''Enhancing web page'')) (\<lambda>_.
     andThen (lift (createDom env u markup)) (\<lambda>page.
     andThen (lift (enhancePage env page)) (\<lambda>enhanced.
     andThen (call (ReadabilityParse classesToPreserve)
                (\<lambda>_. readability env enhanced classesToPreserve)) (\<lambda>parsed.
     andThen (emit (SpinnerSucceed None)) (\<lambda>_.
     ret (spread_url parsed u)))))))))"

definition cleanup :: "'ast env \<Rightarrow> string \<Rightarrow> article step" where
  "cleanup env u =
     catch (cleanup_try env u)
       (\<lambda>error. andThen (emit (SpinnerFail (message error))) (\<lambda>_. throw error))"

section \<open>Bundle the HTML files\<close>

subsection \<open>Lines 112 to 134: the temporary file name, the style and the composed HTML\<close>

definition compose :: "'ast env \<Rightarrow> article list \<Rightarrow> options \<Rightarrow> (string \<times> string \<times> string) step" where
  "compose env items opts =
     andThen (emit (SpinnerStart ''Generating temporary HTML file'')) (\<lambda>_.
     andThen (ask (\<lambda>tr. tmpNameSync env tr ''.html'')) (\<lambda>temp_file.
     andThen (ask (\<lambda>tr. resolve env tr (or_else (style opts) ''./templates/default.css''))) (\<lambda>stylesheet.
     andThen (ask (\<lambda>tr. readFileSync env tr stylesheet)) (\<lambda>sheet.
     andThen (ask (\<lambda>tr. resolve env tr (or_else (template opts) ''./templates/default.html''))) (\<lambda>template_path.
     andThen (ask (\<lambda>tr. readFileSync env tr template_path)) (\<lambda>template_text.
     andThen (call (RenderString template_text items (sheet @ or_else (css opts) []) stylesheet)
                (\<lambda>_. renderString env template_text items (sheet @ or_else (css opts) []) stylesheet))
       (\<lambda>html_text.
     ret (temp_file, sheet @ or_else (css opts) [], html_text))))))))"

subsection \<open>Lines 136 to 172: the header and footer fragments\<close>

text \<open>
  The template literal of the new \<open>style\<close> attribute: a line break and four tabs, the
  declarations and a semicolon, a line break and four tabs, the style the element had
  (\<open>getAttribute('style') || ''\<close>), a line break and three tabs.
\<close>

definition style_value :: "string \<Rightarrow> string option \<Rightarrow> string" where
  "style_value declarations old =
     CHR 0x0A # replicate 4 (CHR 0x09) @ declarations @ '';'' @
     CHR 0x0A # replicate 4 (CHR 0x09) @ or_else old [] @
     CHR 0x0A # replicate 3 (CHR 0x09)"

text \<open>
  Lines 148 to 159 for the header and 161 to 172 for the footer, which differ in the
  selector and the fragment only.
\<close>

definition inline_style :: "'ast env \<Rightarrow> 'ast \<Rightarrow> string \<Rightarrow> document \<Rightarrow> document" where
  "inline_style env css_ast selector fragment =
     (let header_style = get_style_attribute_value env css_ast selector;
          header_div = querySelector_body_first_child fragment
      in case header_div of
           None \<Rightarrow> fragment
         | Some (i, el) \<Rightarrow>
             if header_style \<noteq> [] then
               fragment\<lparr>body := (body fragment)
                 [i := setAttribute el ''style'' (style_value header_style (getAttribute el ''style''))]\<rparr>
             else fragment)"

definition template_fragment :: "'ast env \<Rightarrow> document \<Rightarrow> string \<Rightarrow> document" where
  "template_fragment env doc c =
     new_JSDOM env
       (case querySelector_class doc c of
          Some headerTemplate \<Rightarrow> inner_html env (kids headerTemplate)
        | None \<Rightarrow> ''<span></span>'')"

definition print_fragments :: "'ast env \<Rightarrow> string \<Rightarrow> string \<Rightarrow> error + document \<times> document" where
  "print_fragments env html_text style_text =
     (let doc = new_JSDOM env html_text;
          header = template_fragment env doc ''header-template'';
          footer = template_fragment env doc ''footer-template''
      in case css_parse env style_text of
           Inl e \<Rightarrow> Inl e
         | Inr css_ast \<Rightarrow>
             Inr (inline_style env css_ast ''.header-template'' header,
                  inline_style env css_ast ''.footer-template'' footer))"

subsection \<open>Lines 174 to 200: the temporary file and the staging browser\<close>

definition pup_launch :: "'ast env \<Rightarrow> string list option \<Rightarrow> unit step" where
  "pup_launch env args =
     andThen (call (Launch args) (\<lambda>tr. launch env tr args)) (\<lambda>_.
     modify (\<lambda>w. w\<lparr>open_browsers := Suc (open_browsers w)\<rparr>))"

definition stage :: "'ast env \<Rightarrow> options \<Rightarrow> string \<Rightarrow> string \<Rightarrow> unit step" where
  "stage env opts temp_file html_text =
     andThen (call (WriteFileSync temp_file html_text)
                (\<lambda>tr. writeFileSync env tr temp_file html_text)) (\<lambda>_.
     andThen (emit (SpinnerSucceed (Some (''Temporary HTML file: file://'' @ temp_file)))) (\<lambda>_.
     andThen (emit (SpinnerStart (''Staging temporary HTML file: file://'' @ temp_file))) (\<lambda>_.
     andThen (pup_launch env
                (if sandbox opts then None else Some [''--no-sandbox'', ''--disable-setuid-sandbox''])) (\<lambda>_.
     andThen (call NewPage (newPage env)) (\<lambda>_.
     andThen (call (Goto (''file://'' @ temp_file)) (\<lambda>tr. goto env tr (''file://'' @ temp_file))) (\<lambda>_.
     emit (SpinnerSucceed (Some (''Loaded temporary HTML file: file://'' @ temp_file)))))))))"

subsection \<open>Lines 202 to 216: the output file name\<close>

text \<open>\<open>Date.now()\<close> in a template literal: the decimal digits of the number.\<close>

fun digits :: "nat \<Rightarrow> string" where
  "digits n =
     (if n < 10 then [''0123456789'' ! n] else digits (n div 10) @ [''0123456789'' ! (n mod 10)])"

declare digits.simps [simp del]

definition output_path :: "'ast env \<Rightarrow> options \<Rightarrow> article list \<Rightarrow> world \<Rightarrow> string" where
  "output_path env opts items w =
     or_else (output_path_opt opts)
       (if length items = 1
        then slugify env (or_else (title (items ! 0)) ''Untitled page'') @ ''.'' @ cmd w
        else ''percollate-'' @ digits (date_now env (trace w)) @ ''.'' @ cmd w)"

definition name_output :: "'ast env \<Rightarrow> options \<Rightarrow> article list \<Rightarrow> string step" where
  "name_output env opts items =
     andThen (emit (SpinnerStart ''Setting output file name.'')) (\<lambda>_.
     andThen (gets (output_path env opts items)) (\<lambda>path.
     andThen (emit (SpinnerSucceed (Some (''Set output file name to: '' @ path)))) (\<lambda>_.
     ret path)))"


subsection \<open>Lines 219 to 283: the three targets\<close>

text \<open>
  \<open>items[0].title\<close>: reading a property of \<open>undefined\<close> throws a \<open>TypeError\<close> when
  \<open>items\<close> is empty.
\<close>

definition first_title :: "article list \<Rightarrow> string option step" where
  "first_title items =
     (case items of
        [] \<Rightarrow> throw (Error ''TypeError: items[0] is undefined'')
      | item # _ \<Rightarrow> ret (title item))"

text \<open>
  \<open>fs.writeFile(output_path, bodyHTML, function(err) { if (err) { return console.log(err); } })\<close>:
  the call is in no \<open>try\<close>, so what it throws itself is thrown by \<open>bundle\<close>; when it
  returns, it returns at once, and the callback prints the error, if there is one (the
  print is recorded by the error's message), and nothing else reads it.
\<close>

definition fs_writeFile :: "'ast env \<Rightarrow> string \<Rightarrow> string \<Rightarrow> unit step" where
  "fs_writeFile env path bodyHTML =
     andThen (call (WriteFile path bodyHTML) (\<lambda>tr. write_file env tr path bodyHTML)) (\<lambda>err.
     case err of None \<Rightarrow> ret () | Some e \<Rightarrow> console_log (message e))"

text \<open>
  \<open>new Epub(option, output_path)\<close>: what the constructor throws is thrown by \<open>bundle\<close>;
  when it returns it has started the assembly, the object is dropped and no handler is
  attached to it, so \<open>epub_assembly\<close> is read nowhere.
\<close>

definition save_pdf :: "'ast env \<Rightarrow> document \<Rightarrow> document \<Rightarrow> string \<Rightarrow> unit step" where
  "save_pdf env header footer path =
     andThen (emit (SpinnerStart ''Saving PDF'')) (\<lambda>_.
     andThen (call (PagePdf path (inner_html env (body header)) (inner_html env (body footer)))
                (\<lambda>tr. page_pdf env tr path (inner_html env (body header))
                        (inner_html env (body footer)))) (\<lambda>_.
     emit (SpinnerSucceed (Some (''Saved PDF: '' @ path)))))"

definition save_epub :: "'ast env \<Rightarrow> article list \<Rightarrow> string \<Rightarrow> unit step" where
  "save_epub env items path =
     andThen (emit (SpinnerStart ''Saving EPUB'')) (\<lambda>_.
     andThen (call Evaluate (evaluate env)) (\<lambda>bodyHTML.
     andThen (first_title items) (\<lambda>t.
     andThen (call (NewEpub t bodyHTML path) (\<lambda>tr. new_epub env tr t bodyHTML path)) (\<lambda>_.
     emit (SpinnerSucceed (Some (''Saved EPUB: '' @ path)))))))"

definition save_html :: "'ast env \<Rightarrow> string \<Rightarrow> unit step" where
  "save_html env path =
     andThen (emit (SpinnerStart ''Saving HTML'')) (\<lambda>_.
     andThen (call Evaluate (evaluate env)) (\<lambda>bodyHTML.
     andThen (fs_writeFile env path bodyHTML) (\<lambda>_.
     emit (SpinnerSucceed (Some (''Saved HTML: '' @ path))))))"

definition save :: "'ast env \<Rightarrow> article list \<Rightarrow> document \<Rightarrow> document \<Rightarrow> string \<Rightarrow> unit step" where
  "save env items header footer path =
     andThen (gets cmd) (\<lambda>c.
     if c = ''pdf'' then save_pdf env header footer path
     else if c = ''epub'' then save_epub env items path
     else if c = ''html'' then save_html env path
     else ret ())"

subsection \<open>Lines 285 to 288: closing the browser\<close>

definition close_browser :: "'ast env \<Rightarrow> unit step" where
  "close_browser env =
     andThen (emit (SpinnerStart ''Closing staging browser.'')) (\<lambda>_.
     andThen (call BrowserClose (browser_close env)) (\<lambda>_.
     andThen (modify (\<lambda>w. w\<lparr>open_browsers := open_browsers w - 1\<rparr>)) (\<lambda>_.
     andThen (emit (SpinnerSucceed (Some ''Staging browser closed.''))) (\<lambda>_.
     emit (SpinnerSucceed (Some ''All done.''))))))"

subsection \<open>The whole of \<open>bundle\<close>\<close>

text \<open>The function \<open>bundle(items, options)\<close>; \<open>bundle\<close> is a reserved word here.\<close>

definition bundle_items :: "'ast env \<Rightarrow> article list \<Rightarrow> options \<Rightarrow> unit step" where
  "bundle_items env items opts =
     andThen (compose env items opts) (\<lambda>(temp_file, style_text, html_text).
     andThen (lift (print_fragments env html_text style_text)) (\<lambda>(header, footer).
     andThen (stage env opts temp_file html_text) (\<lambda>_.
     andThen (name_output env opts items) (\<lambda>path.
     andThen (save env items header footer path) (\<lambda>_.
     close_browser env)))))"

section \<open>The batch and the three exported operations\<close>

text \<open>
  The \<open>for\<close> loop of \<open>generateOutput\<close>, with \<open>items\<close> as it stands before the URLs that
  are left; it returns \<open>items\<close> as it stands after the last one.
\<close>

fun for_urls :: "'ast env \<Rightarrow> options \<Rightarrow> string list \<Rightarrow> article list \<Rightarrow> article list step" where
  "for_urls env opts [] items w = (Inr items, w)"
| "for_urls env opts (u # urls) items w =
     (case cleanup env u w of
        (Inl e, w1) \<Rightarrow> (Inl e, w1)
      | (Inr item, w1) \<Rightarrow>
          if individual opts then
            (case bundle_items env [item] opts w1 of
               (Inl e, w2) \<Rightarrow> (Inl e, w2)
             | (Inr _, w2) \<Rightarrow> for_urls env opts urls items w2)
          else for_urls env opts urls (items @ [item]) w1)"

definition generateOutput :: "'ast env \<Rightarrow> string list \<Rightarrow> options \<Rightarrow> unit step" where
  "generateOutput env urls opts w =
     (if length urls = 0 then (Inr (), w)
      else
        (case for_urls env opts urls [] w of
           (Inl e, w1) \<Rightarrow> (Inl e, w1)
         | (Inr items, w1) \<Rightarrow>
             if \<not> individual opts then bundle_items env items opts w1 else (Inr (), w1)))"

definition pdf :: "'ast env \<Rightarrow> string list \<Rightarrow> options \<Rightarrow> unit step" where
  "pdf env urls opts =
     andThen (modify (\<lambda>w. w\<lparr>cmd := ''pdf''\<rparr>)) (\<lambda>_.
     andThen (console_log ''Generating PDF output'') (\<lambda>_.
     generateOutput env urls opts))"

definition epub :: "'ast env \<Rightarrow> string list \<Rightarrow> options \<Rightarrow> unit step" where
  "epub env urls opts =
     andThen (modify (\<lambda>w. w\<lparr>cmd := ''epub''\<rparr>)) (\<lambda>_.
     andThen (console_log ''Generating EPUB output'') (\<lambda>_.
     generateOutput env urls opts))"

definition html :: "'ast env \<Rightarrow> string list \<Rightarrow> options \<Rightarrow> unit step" where
  "html env urls opts =
     andThen (modify (\<lambda>w. w\<lparr>cmd := ''html''\<rparr>)) (\<lambda>_.
     andThen (console_log ''Generating HTML output'') (\<lambda>_.
     generateOutput env urls opts))"

section \<open>A test double\<close>

text \<open>
  Collaborators that always succeed, for running the program on concrete inputs. Every
  page is fetched as the markup \<open><div>text</div>\<close>, which is also what the template renders
  to and what the staged page has in its body. The parser knows the markups that are run,
  all but one without a doctype (so their documents are in quirks mode), and takes any
  other markup as plain text; the serialiser writes tags, attributes and texts as they
  are. A URL is one that starts with \<open>http://\<close>. The stylesheet gives the header rule
  \<open>margin: 0 auto\<close> and the footer rule nothing. Single collaborators are replaced by
  failing ones where a failure is run.
\<close>

fun test_serialize :: "node \<Rightarrow> string" where
  "test_serialize (Text s) = s"
| "test_serialize (Element t as ks) =
     ''<'' @ t
     @ concat (map (\<lambda>(n, v). '' '' @ n @ ''='' @ [CHR 0x22] @ v @ [CHR 0x22]) as)
     @ ''>'' @ concat (map test_serialize ks) @ ''</'' @ t @ ''>''"

definition test_document :: "bool \<Rightarrow> node list \<Rightarrow> document" where
  "test_document quirks ns =
     \<lparr>doc_url = ''about:blank'', quirks_mode = quirks, html_attrs = [], head_attrs = [],
      head = [], body_attrs = [], body = ns\<rparr>"

definition test_parse :: "string \<Rightarrow> document" where
  "test_parse markup =
     (if markup = [] then test_document True []
      else if markup = ''<span></span>'' then test_document True [Element ''span'' [] []]
      else if markup = ''<b>x</b>'' then test_document True [Element ''b'' [] [Text ''x'']]
      else if markup = ''<div>text</div>'' then
        test_document True [Element ''div'' [] [Text ''text'']]
      else if markup = ''a<div style=color:red></div>'' then
        test_document True [Text ''a'', Element ''div'' [(''style'', ''color:red'')] []]
      else if markup = ''<div class=Header-Template><b>x</b></div>'' then
        test_document True
          [Element ''div'' [(''class'', ''Header-Template'')] [Element ''b'' [] [Text ''x'']]]
      else if markup = ''<!DOCTYPE html><div class=Header-Template><b>x</b></div>'' then
        test_document False
          [Element ''div'' [(''class'', ''Header-Template'')] [Element ''b'' [] [Text ''x'']]]
      else test_document True [Text markup])"

definition test_env :: "unit env" where
  "test_env =
     \<lparr>pkg_version = ''1.0.0'',
      got = (\<lambda>_ _ _. Inr ''<div>text</div>''),
      parse_html = test_parse,
      parse_url = (\<lambda>u. if take 7 u = ''http://'' then Inr u else Inl (Error ''Invalid URL'')),
      inner_html = (\<lambda>ns. concat (map test_serialize ns)),
      relativeToAbsoluteURIs = Inr,
      imagesAtFullSize = Inr,
      singleImgToFigure = Inr,
      noUselessHref = Inr,
      wikipediaSpecific = Inr,
      readability = (\<lambda>_ _. Inr (Some \<lparr>title = Some ''Hello World!'', byline = None,
                                        content = Some ''text'', excerpt = None\<rparr>)),
      tmpNameSync = (\<lambda>_ _. Inr ''/tmp/t.html''),
      resolve = (\<lambda>_ p. Inr p),
      readFileSync = (\<lambda>_ _. Inr []),
      renderString = (\<lambda>_ _ _ _. Inr ''<div>text</div>''),
      css_parse = (\<lambda>_. Inr ()),
      get_style_attribute_value =
        (\<lambda>_ selector. if selector = ''.header-template'' then ''margin: 0 auto'' else []),
      writeFileSync = (\<lambda>_ _ _. Inr ()),
      launch = (\<lambda>_ _. Inr ()),
      newPage = (\<lambda>_. Inr ()),
      goto = (\<lambda>_ _. Inr ()),
      page_pdf = (\<lambda>_ _ _ _. Inr ()),
      evaluate = (\<lambda>_. Inr ''<div>text</div>''),
      write_file = (\<lambda>_ _ _. Inr None),
      new_epub = (\<lambda>_ _ _ _. Inr ()),
      epub_assembly = (\<lambda>_ _ _ _. None),
      browser_close = (\<lambda>_. Inr ()),
      slugify = (\<lambda>s. map (\<lambda>c. if c = CHR '' '' then CHR ''-'' else c) s),
      date_now = (\<lambda>_. 1500000000000)\<rparr>"

definition test_options :: options where
  "test_options =
     \<lparr>individual = False, output_path_opt = None, style = None, css = None, template = None,
      sandbox = False\<rparr>"

definition world0 :: world where
  "world0 = \<lparr>cmd = ''pdf'', trace = [], console = [], open_browsers = 0\<rparr>"

definition test_item :: article where
  "test_item =
     \<lparr>title = Some ''Hello World!'', byline = None, content = Some ''text'', excerpt = None,
      url = ''http://a/1''\<rparr>"

text \<open>
  The failing collaborators: a fetch that fails for the URL \<open>http://a/1\<close> and for no
  other, an extractor that finds no content (it returns \<open>null\<close>), a \<open>page.pdf\<close> that
  fails, an \<open>fs.writeFile\<close> whose callback receives an error and one that throws at the
  call, an EPUB constructor that throws and an EPUB assembly that fails later.
\<close>

definition failing_fetch_env :: "unit env" where
  "failing_fetch_env =
     test_env\<lparr>got := (\<lambda>_ u _. if u = ''http://a/1'' then Inl (Error ''boom'')
                             else Inr ''<div>text</div>'')\<rparr>"

definition null_extraction_env :: "unit env" where
  "null_extraction_env = test_env\<lparr>readability := (\<lambda>_ _. Inr None)\<rparr>"

definition failing_pdf_env :: "unit env" where
  "failing_pdf_env = test_env\<lparr>page_pdf := (\<lambda>_ _ _ _. Inl (Error ''render failed''))\<rparr>"

definition failing_write_env :: "unit env" where
  "failing_write_env = test_env\<lparr>write_file := (\<lambda>_ _ _. Inr (Some (Error ''EACCES'')))\<rparr>"

definition throwing_write_env :: "unit env" where
  "throwing_write_env = test_env\<lparr>write_file := (\<lambda>_ _ _. Inl (Error ''ERR_INVALID_ARG_VALUE''))\<rparr>"

definition throwing_epub_env :: "unit env" where
  "throwing_epub_env = test_env\<lparr>new_epub := (\<lambda>_ _ _ _. Inl (Error ''constructor failed''))\<rparr>"

definition failing_assembly_env :: "unit env" where
  "failing_assembly_env =
     test_env\<lparr>epub_assembly := (\<lambda>_ _ _ _. Some (Error ''assembly failed''))\<rparr>"

section \<open>Reading a trace\<close>

text \<open>
  The calls that hand an artifact to a writer: \<open>page.pdf\<close>, \<open>new Epub\<close> and
  \<open>fs.writeFile\<close>, and the path each is given.
\<close>

definition artifact_path :: "event \<Rightarrow> string option" where
  "artifact_path ev =
     (case ev of PagePdf p _ _ \<Rightarrow> Some p | NewEpub _ _ p \<Rightarrow> Some p | WriteFile p _ \<Rightarrow> Some p
      | _ \<Rightarrow> None)"

definition artifacts :: "event list \<Rightarrow> event list" where
  "artifacts tr = filter (\<lambda>ev. artifact_path ev \<noteq> None) tr"

text \<open>The target whose writer a call belongs to; \<open>None\<close> for every other call.\<close>

definition artifact_format :: "event \<Rightarrow> string option" where
  "artifact_format ev =
     (case ev of PagePdf _ _ _ \<Rightarrow> Some ''pdf'' | NewEpub _ _ _ \<Rightarrow> Some ''epub''
      | WriteFile _ _ \<Rightarrow> Some ''html'' | _ \<Rightarrow> None)"

text \<open>The sequences of items handed to \<open>nunjucks.renderString\<close>, in the order of the calls.\<close>

definition rendered_items :: "event \<Rightarrow> article list option" where
  "rendered_items ev = (case ev of RenderString _ items _ _ \<Rightarrow> Some items | _ \<Rightarrow> None)"

definition compositions :: "event list \<Rightarrow> article list list" where
  "compositions tr = List.map_filter rendered_items tr"

text \<open>The class lists handed to Readability, in the order of the calls.\<close>

definition preserved_classes :: "event \<Rightarrow> string list option" where
  "preserved_classes ev = (case ev of ReadabilityParse cs \<Rightarrow> Some cs | _ \<Rightarrow> None)"

definition extractions :: "event list \<Rightarrow> string list list" where
  "extractions tr = List.map_filter preserved_classes tr"


section \<open>Statements about a step\<close>

text \<open>
  \<open>wp m E Q w\<close>: run from \<open>w\<close>, the step \<open>m\<close> either throws some \<open>e\<close> and leaves a world
  with \<open>E e\<close>, or returns some \<open>x\<close> and leaves a world with \<open>Q x\<close>. \<open>emitted ev w w'\<close>:
  \<open>w'\<close> is \<open>w\<close> after the one call \<open>ev\<close>.
\<close>

definition wp :: "'a step \<Rightarrow> (error \<Rightarrow> world \<Rightarrow> bool) \<Rightarrow> ('a \<Rightarrow> world \<Rightarrow> bool) \<Rightarrow> world \<Rightarrow> bool" where
  "wp m E Q w = (case m w of (Inl e, w') \<Rightarrow> E e w' | (Inr x, w') \<Rightarrow> Q x w')"

definition emitted :: "event \<Rightarrow> world \<Rightarrow> world \<Rightarrow> bool" where
  "emitted ev w w' =
     (trace w' = trace w @ [ev] \<and> cmd w' = cmd w \<and> console w' = console w
      \<and> open_browsers w' = open_browsers w)"

text \<open>The pages opened and the calls of \<open>browser.close()\<close>.\<close>

definition pages :: "event list \<Rightarrow> nat" where
  "pages tr = length (filter (\<lambda>ev. ev = NewPage) tr)"

definition closes :: "event list \<Rightarrow> nat" where
  "closes tr = length (filter (\<lambda>ev. ev = BrowserClose) tr)"


section \<open>Running the test double\<close>

lemma test_env_sel:
  "pkg_version test_env = ''1.0.0''"
  "got test_env = (\<lambda>_ _ _. Inr ''<div>text</div>'')"
  "parse_html test_env = test_parse"
  "parse_url test_env = (\<lambda>u. if take 7 u = ''http://'' then Inr u else Inl (Error ''Invalid URL''))"
  "inner_html test_env = (\<lambda>ns. concat (map test_serialize ns))"
  "relativeToAbsoluteURIs test_env = Inr"
  "imagesAtFullSize test_env = Inr"
  "singleImgToFigure test_env = Inr"
  "noUselessHref test_env = Inr"
  "wikipediaSpecific test_env = Inr"
  "readability test_env =
     (\<lambda>_ _. Inr (Some \<lparr>title = Some ''Hello World!'', byline = None,
                         content = Some ''text'', excerpt = None\<rparr>))"
  "tmpNameSync test_env = (\<lambda>_ _. Inr ''/tmp/t.html'')"
  "resolve test_env = (\<lambda>_ p. Inr p)"
  "readFileSync test_env = (\<lambda>_ _. Inr [])"
  "renderString test_env = (\<lambda>_ _ _ _. Inr ''<div>text</div>'')"
  "css_parse test_env = (\<lambda>_. Inr ())"
  "get_style_attribute_value test_env =
     (\<lambda>_ selector. if selector = ''.header-template'' then ''margin: 0 auto'' else [])"
  "writeFileSync test_env = (\<lambda>_ _ _. Inr ())"
  "launch test_env = (\<lambda>_ _. Inr ())"
  "newPage test_env = (\<lambda>_. Inr ())"
  "goto test_env = (\<lambda>_ _. Inr ())"
  "page_pdf test_env = (\<lambda>_ _ _ _. Inr ())"
  "evaluate test_env = (\<lambda>_. Inr ''<div>text</div>'')"
  "write_file test_env = (\<lambda>_ _ _. Inr None)"
  "new_epub test_env = (\<lambda>_ _ _ _. Inr ())"
  "epub_assembly test_env = (\<lambda>_ _ _ _. None)"
  "browser_close test_env = (\<lambda>_. Inr ())"
  "slugify test_env = (\<lambda>s. map (\<lambda>c. if c = CHR '' '' then CHR ''-'' else c) s)"
  "date_now test_env = (\<lambda>_. 1500000000000)"
  by (simp_all add: test_env_def)

lemma test_parse_sel:
  "test_parse [] = test_document True []"
  "test_parse ''<span></span>'' = test_document True [Element ''span'' [] []]"
  "test_parse ''<b>x</b>'' = test_document True [Element ''b'' [] [Text ''x'']]"
  "test_parse ''<div>text</div>'' = test_document True [Element ''div'' [] [Text ''text'']]"
  "test_parse ''a<div style=color:red></div>'' =
     test_document True [Text ''a'', Element ''div'' [(''style'', ''color:red'')] []]"
  "test_parse ''<div class=Header-Template><b>x</b></div>'' =
     test_document True
       [Element ''div'' [(''class'', ''Header-Template'')] [Element ''b'' [] [Text ''x'']]]"
  "test_parse ''<!DOCTYPE html><div class=Header-Template><b>x</b></div>'' =
     test_document False
       [Element ''div'' [(''class'', ''Header-Template'')] [Element ''b'' [] [Text ''x'']]]"
  by (simp_all add: test_parse_def)

section \<open>Unfolding the program\<close>

lemmas step_defs =
  andThen_def catch_def emit_def call_def ask_def ret_def throw_def lift_def console_log_def
  gets_def modify_def

lemmas cleanup_defs =
  cleanup_def cleanup_try_def enhancePage_def createDom_def new_JSDOM_url_def
  classesToPreserve_def spread_url_def

lemmas fragment_defs =
  print_fragments_def template_fragment_def inline_style_def new_JSDOM_def
  querySelector_class_def documentElement_def has_class_def
  querySelector_body_first_child_def is_element_def style_value_def setAttribute_def
  getAttribute_def test_parse_sel test_document_def

lemmas bundle_defs =
  bundle_items_def compose_def stage_def pup_launch_def name_output_def output_path_def
  save_def save_pdf_def save_epub_def save_html_def fs_writeFile_def first_title_def
  close_browser_def or_else_def

lemmas run_defs =
  pdf_def epub_def html_def generateOutput_def cleanup_defs fragment_defs bundle_defs step_defs
  test_env_sel test_options_def world0_def

section \<open>Rules for running a step\<close>

lemma wpD:
  "m w = (r, w') \<Longrightarrow> wp m E Q w \<Longrightarrow> (case r of Inl e \<Rightarrow> E e w' | Inr x \<Rightarrow> Q x w')"
  by (simp add: wp_def split: sum.splits)

lemma wp_mono:
  assumes "wp m E Q w"
    and "\<And>e w'. E e w' \<Longrightarrow> E' e w'"
    and "\<And>x w'. Q x w' \<Longrightarrow> Q' x w'"
  shows "wp m E' Q' w"
  using assms by (auto simp: wp_def split: prod.splits sum.splits)

lemma wp_andThen:
  "wp m E (\<lambda>x. wp (f x) E Q) w \<Longrightarrow> wp (andThen m f) E Q w"
  by (simp add: wp_def andThen_def split: prod.splits sum.splits)

lemma wp_catch:
  "wp m (\<lambda>e. wp (h e) E Q) Q w \<Longrightarrow> wp (catch m h) E Q w"
  by (simp add: wp_def catch_def split: prod.splits sum.splits)

lemma wp_ret: "Q x w \<Longrightarrow> wp (ret x) E Q w"
  by (simp add: wp_def ret_def)

lemma wp_throw: "E e w \<Longrightarrow> wp (throw e) E Q w"
  by (simp add: wp_def throw_def)

lemma wp_lift:
  "(\<And>e. r = Inl e \<Longrightarrow> E e w) \<Longrightarrow> (\<And>x. r = Inr x \<Longrightarrow> Q x w) \<Longrightarrow> wp (lift r) E Q w"
  by (cases r) (simp_all add: wp_def lift_def)

lemma wp_ask:
  "(\<And>e. f (trace w) = Inl e \<Longrightarrow> E e w) \<Longrightarrow> (\<And>x. f (trace w) = Inr x \<Longrightarrow> Q x w)
   \<Longrightarrow> wp (ask f) E Q w"
  by (cases "f (trace w)") (simp_all add: wp_def ask_def)

lemma wp_gets: "Q (f w) w \<Longrightarrow> wp (gets f) E Q w"
  by (simp add: wp_def gets_def)

lemma wp_modify: "Q () (g w) \<Longrightarrow> wp (modify g) E Q w"
  by (simp add: wp_def modify_def)

lemma wp_emit:
  "(\<And>w'. emitted ev w w' \<Longrightarrow> Q () w') \<Longrightarrow> wp (emit ev) E Q w"
  by (simp add: wp_def emit_def emitted_def)

lemma wp_call:
  "(\<And>e w'. f (trace w) = Inl e \<Longrightarrow> emitted ev w w' \<Longrightarrow> E e w') \<Longrightarrow>
   (\<And>x w'. f (trace w) = Inr x \<Longrightarrow> emitted ev w w' \<Longrightarrow> Q x w') \<Longrightarrow>
   wp (call ev f) E Q w"
  by (cases "f (trace w)") (simp_all add: wp_def call_def emitted_def)

lemma wp_console_log:
  "(\<And>w'. trace w' = trace w \<Longrightarrow> cmd w' = cmd w \<Longrightarrow> console w' = console w @ [s] \<Longrightarrow>
          open_browsers w' = open_browsers w \<Longrightarrow> Q () w')
   \<Longrightarrow> wp (console_log s) E Q w"
  by (simp add: wp_def console_log_def)

lemma wp_if:
  "(c \<Longrightarrow> wp a E Q w) \<Longrightarrow> (\<not> c \<Longrightarrow> wp b E Q w) \<Longrightarrow> wp (if c then a else b) E Q w"
  by simp

lemma wp_case_option:
  "(x = None \<Longrightarrow> wp a E Q w) \<Longrightarrow> (\<And>y. x = Some y \<Longrightarrow> wp (b y) E Q w)
   \<Longrightarrow> wp (case x of None \<Rightarrow> a | Some y \<Rightarrow> b y) E Q w"
  by (cases x) simp_all

lemma wp_case_list:
  "(xs = [] \<Longrightarrow> wp a E Q w) \<Longrightarrow> (\<And>y ys. xs = y # ys \<Longrightarrow> wp (b y ys) E Q w)
   \<Longrightarrow> wp (case xs of [] \<Rightarrow> a | y # ys \<Rightarrow> b y ys) E Q w"
  by (cases xs) simp_all

lemma wp_case_prod:
  "(\<And>a b. x = (a, b) \<Longrightarrow> wp (f a b) E Q w) \<Longrightarrow> wp (case x of (a, b) \<Rightarrow> f a b) E Q w"
  by (cases x) simp

lemmas wp_rules =
  wp_andThen wp_catch wp_ret wp_throw wp_lift wp_ask wp_gets wp_modify wp_emit wp_call
  wp_console_log wp_if wp_case_option wp_case_list wp_case_prod

lemma wp_snd: "wp m (\<lambda>_. P) (\<lambda>_. P) w \<Longrightarrow> P (snd (m w))"
  by (simp add: wp_def split: prod.splits sum.splits)

lemmas program_defs =
  bundle_items_def compose_def stage_def pup_launch_def name_output_def
  save_def save_pdf_def save_epub_def save_html_def fs_writeFile_def first_title_def
  close_browser_def cleanup_def cleanup_try_def

section \<open>What one call adds to each reading of the trace\<close>

lemma extractions_simps [simp]:
  "extractions [] = []"
  "extractions (xs @ ys) = extractions xs @ extractions ys"
  "extractions (ev # tr) = (case ev of ReadabilityParse cs \<Rightarrow> [cs] | _ \<Rightarrow> []) @ extractions tr"
  by (simp_all add: extractions_def List.map_filter_def preserved_classes_def split: event.splits)

lemma compositions_simps [simp]:
  "compositions [] = []"
  "compositions (xs @ ys) = compositions xs @ compositions ys"
  "compositions (ev # tr) =
     (case ev of RenderString _ items _ _ \<Rightarrow> [items] | _ \<Rightarrow> []) @ compositions tr"
  by (simp_all add: compositions_def List.map_filter_def rendered_items_def split: event.splits)

lemma artifacts_simps [simp]:
  "artifacts [] = []"
  "artifacts (xs @ ys) = artifacts xs @ artifacts ys"
  "artifacts (ev # tr) = (if artifact_path ev \<noteq> None then [ev] else []) @ artifacts tr"
  by (simp_all add: artifacts_def)

lemma pages_simps [simp]:
  "pages [] = 0"
  "pages (xs @ ys) = pages xs + pages ys"
  "pages (ev # tr) = (if ev = NewPage then 1 else 0) + pages tr"
  by (simp_all add: pages_def)

lemma closes_simps [simp]:
  "closes [] = 0"
  "closes (xs @ ys) = closes xs + closes ys"
  "closes (ev # tr) = (if ev = BrowserClose then 1 else 0) + closes tr"
  by (simp_all add: closes_def)

lemma artifact_path_simps [simp]:
  "artifact_path (SpinnerStart s) = None"
  "artifact_path (SpinnerSucceed so) = None"
  "artifact_path (SpinnerFail s) = None"
  "artifact_path (Got u a) = None"
  "artifact_path (ReadabilityParse cs) = None"
  "artifact_path (RenderString t items st sh) = None"
  "artifact_path (WriteFileSync p d) = None"
  "artifact_path (Launch args) = None"
  "artifact_path NewPage = None"
  "artifact_path (Goto g) = None"
  "artifact_path (PagePdf p h f) = Some p"
  "artifact_path Evaluate = None"
  "artifact_path (NewEpub ti d p) = Some p"
  "artifact_path (WriteFile p d) = Some p"
  "artifact_path BrowserClose = None"
  by (simp_all add: artifact_path_def)

lemma artifact_format_simps [simp]:
  "artifact_format (SpinnerStart s) = None"
  "artifact_format (SpinnerSucceed so) = None"
  "artifact_format (SpinnerFail s) = None"
  "artifact_format (Got u a) = None"
  "artifact_format (ReadabilityParse cs) = None"
  "artifact_format (RenderString t items st sh) = None"
  "artifact_format (WriteFileSync p d) = None"
  "artifact_format (Launch args) = None"
  "artifact_format NewPage = None"
  "artifact_format (Goto g) = None"
  "artifact_format (PagePdf p h f) = Some ''pdf''"
  "artifact_format Evaluate = None"
  "artifact_format (NewEpub ti d p) = Some ''epub''"
  "artifact_format (WriteFile p d) = Some ''html''"
  "artifact_format BrowserClose = None"
  by (simp_all add: artifact_format_def)

lemma emitted_extractions:
  "emitted ev w w' \<Longrightarrow> extractions (trace w') = extractions (trace w) @ extractions [ev]"
  by (simp add: emitted_def)




lemma emitted_browser:
  "emitted ev w w' \<Longrightarrow>
     pages (trace w') = pages (trace w) + pages [ev]
     \<and> closes (trace w') = closes (trace w) + closes [ev]
     \<and> last (trace w') = ev
     \<and> open_browsers w' = open_browsers w"
  by (simp add: emitted_def)

section \<open>The batch\<close>

subsection \<open>No URLs\<close>

text \<open>
  C4, as the code has it. \<open>generateOutput\<close> starts with \<open>if (!urls.length) return;\<close>:
  for the empty sequence of URLs it returns at once, without an error and without any
  effect, and each exported operation has then only set \<open>cmd\<close> and printed its line. No
  \<open>NoContent\<close> error is raised anywhere.
\<close>

theorem generateOutput_no_urls:
  "generateOutput env [] opts w = (Inr (), w)
   \<and> pdf env [] opts w =
       (Inr (), w\<lparr>cmd := ''pdf'', console := console w @ [''Generating PDF output'']\<rparr>)
   \<and> epub env [] opts w =
       (Inr (), w\<lparr>cmd := ''epub'', console := console w @ [''Generating EPUB output'']\<rparr>)
   \<and> html env [] opts w =
       (Inr (), w\<lparr>cmd := ''html'', console := console w @ [''Generating HTML output'']\<rparr>)"
  by (simp add: generateOutput_def pdf_def epub_def html_def andThen_def console_log_def modify_def)

text \<open>
  C4 as stated fails: the claim has the empty input reported as an error, and \<open>pdf\<close> on
  no URLs returns normally.
\<close>

theorem no_urls_is_no_error:
  "\<not> (\<exists>e. fst (pdf test_env [] test_options world0) = Inl e)"
  by (simp add: generateOutput_def pdf_def andThen_def console_log_def modify_def)

subsection \<open>A URL that fails\<close>

text \<open>The four ways \<open>cleanup\<close> can go.\<close>

lemma cleanup_fetch_throws:
  assumes "got env (trace w @ [SpinnerStart (''Fetching: '' @ u)]) u
             (''percollate/'' @ pkg_version env) = Inl e"
  shows "cleanup env u w =
           (Inl e,
            w\<lparr>trace := trace w @
                 [SpinnerStart (''Fetching: '' @ u), Got u (''percollate/'' @ pkg_version env),
                  SpinnerFail (message e)]\<rparr>)"
  using assms by (simp add: cleanup_def cleanup_try_def step_defs)

lemma cleanup_enhance_throws:
  assumes "got env (trace w @ [SpinnerStart (''Fetching: '' @ u)]) u
             (''percollate/'' @ pkg_version env) = Inr markup"
    and "createDom env u markup = Inl e
         \<or> (\<exists>page. createDom env u markup = Inr page \<and> enhancePage env page = Inl e)"
  shows "cleanup env u w =
           (Inl e,
            w\<lparr>trace := trace w @
                 [SpinnerStart (''Fetching: '' @ u), Got u (''percollate/'' @ pkg_version env),
                  SpinnerSucceed None, SpinnerStart ''Enhancing web page'',
                  SpinnerFail (message e)]\<rparr>)"
  using assms by (auto simp: cleanup_def cleanup_try_def step_defs)

lemma cleanup_extractor_throws:
  assumes "got env (trace w @ [SpinnerStart (''Fetching: '' @ u)]) u
             (''percollate/'' @ pkg_version env) = Inr markup"
    and "createDom env u markup = Inr page"
    and "enhancePage env page = Inr enhanced"
    and "readability env enhanced [''no-href'', ''anchor''] = Inl e"
  shows "cleanup env u w =
           (Inl e,
            w\<lparr>trace := trace w @
                 [SpinnerStart (''Fetching: '' @ u), Got u (''percollate/'' @ pkg_version env),
                  SpinnerSucceed None, SpinnerStart ''Enhancing web page'',
                  ReadabilityParse [''no-href'', ''anchor''], SpinnerFail (message e)]\<rparr>)"
  using assms by (simp add: cleanup_def cleanup_try_def classesToPreserve_def step_defs)

lemma cleanup_returns:
  assumes "got env (trace w @ [SpinnerStart (''Fetching: '' @ u)]) u
             (''percollate/'' @ pkg_version env) = Inr markup"
    and "createDom env u markup = Inr page"
    and "enhancePage env page = Inr enhanced"
    and "readability env enhanced [''no-href'', ''anchor''] = Inr parsed"
  shows "cleanup env u w =
           (Inr (spread_url parsed u),
            w\<lparr>trace := trace w @
                 [SpinnerStart (''Fetching: '' @ u), Got u (''percollate/'' @ pkg_version env),
                  SpinnerSucceed None, SpinnerStart ''Enhancing web page'',
                  ReadabilityParse [''no-href'', ''anchor''], SpinnerSucceed None]\<rparr>)"
  using assms by (simp add: cleanup_def cleanup_try_def classesToPreserve_def step_defs)

lemma for_urls_append:
  "for_urls env opts pre items w = (Inr items1, w1) \<Longrightarrow>
   for_urls env opts (pre @ rest) items w = for_urls env opts rest items1 w1"
proof (induction pre arbitrary: items w)
  case Nil
  then show ?case by simp
next
  case (Cons u pre)
  then show ?case
    by (auto split: prod.splits sum.splits if_splits)
qed

lemma generateOutput_fails_with_cleanup:
  assumes "for_urls env opts pre [] w = (Inr batch, w1)"
    and "cleanup env u w1 = (Inl e, w2)"
  shows "generateOutput env (pre @ u # post) opts w = (Inl e, w2)"
proof -
  have "for_urls env opts (pre @ u # post) [] w = for_urls env opts (u # post) batch w1"
    using assms(1) by (rule for_urls_append)
  also have "\<dots> = (Inl e, w2)"
    using assms(2) by simp
  finally show ?thesis
    by (simp add: generateOutput_def)
qed

text \<open>
  C1 as stated fails. With \<open>individual\<close> set and two URLs, a fetch that fails for the
  first ends the whole call with that error: the second URL is never fetched and nothing
  is written.
\<close>

theorem failed_fetch_ends_individual_batch:
  "html failing_fetch_env [''http://a/1'', ''http://a/2''] (test_options\<lparr>individual := True\<rparr>)
     world0 =
     (Inl (Error ''boom''),
      \<lparr>cmd = ''html'',
       trace = [SpinnerStart ''Fetching: http://a/1'', Got ''http://a/1'' ''percollate/1.0.0'',
                SpinnerFail ''boom''],
       console = [''Generating HTML output''], open_browsers = 0\<rparr>)"
  by (simp add: html_def generateOutput_def cleanup_defs step_defs failing_fetch_env_def
      test_env_sel world0_def)

text \<open>
  C1, as the code has it. There is no boundary that catches the failure of one URL.
  When \<open>got\<close>, the construction of the DOM, an enhancement or the extractor throws,
  \<open>cleanup\<close> reports the error with \<open>spinner.fail(error.message)\<close> and throws it again,
  and \<open>generateOutput\<close>, which has no handler, ends with that error in the state \<open>cleanup\<close>
  left: the URLs before have been processed, no URL after is touched. This holds with
  \<open>individual\<close> set and without. When the extractor returns normally, \<open>cleanup\<close> returns
  the item \<open>{ ...parsed, url }\<close>; an extractor that finds no content returns \<open>null\<close>, which
  is no failure: the item then has the \<open>url\<close> and nothing else, and the batch goes on with
  it as with any other item.
\<close>

theorem cleanup_throws_again_and_ends_the_batch:
  "(\<forall>e. got env (trace w @ [SpinnerStart (''Fetching: '' @ u)]) u
            (''percollate/'' @ pkg_version env) = Inl e \<longrightarrow>
        cleanup env u w =
          (Inl e,
           w\<lparr>trace := trace w @
                [SpinnerStart (''Fetching: '' @ u), Got u (''percollate/'' @ pkg_version env),
                 SpinnerFail (message e)]\<rparr>))
   \<and> (\<forall>markup e.
        got env (trace w @ [SpinnerStart (''Fetching: '' @ u)]) u
          (''percollate/'' @ pkg_version env) = Inr markup
        \<and> (createDom env u markup = Inl e
           \<or> (\<exists>page. createDom env u markup = Inr page \<and> enhancePage env page = Inl e)) \<longrightarrow>
        cleanup env u w =
          (Inl e,
           w\<lparr>trace := trace w @
                [SpinnerStart (''Fetching: '' @ u), Got u (''percollate/'' @ pkg_version env),
                 SpinnerSucceed None, SpinnerStart ''Enhancing web page'',
                 SpinnerFail (message e)]\<rparr>))
   \<and> (\<forall>markup page enhanced e.
        got env (trace w @ [SpinnerStart (''Fetching: '' @ u)]) u
          (''percollate/'' @ pkg_version env) = Inr markup
        \<and> createDom env u markup = Inr page
        \<and> enhancePage env page = Inr enhanced
        \<and> readability env enhanced [''no-href'', ''anchor''] = Inl e \<longrightarrow>
        cleanup env u w =
          (Inl e,
           w\<lparr>trace := trace w @
                [SpinnerStart (''Fetching: '' @ u), Got u (''percollate/'' @ pkg_version env),
                 SpinnerSucceed None, SpinnerStart ''Enhancing web page'',
                 ReadabilityParse [''no-href'', ''anchor''], SpinnerFail (message e)]\<rparr>))
   \<and> (\<forall>markup page enhanced parsed.
        got env (trace w @ [SpinnerStart (''Fetching: '' @ u)]) u
          (''percollate/'' @ pkg_version env) = Inr markup
        \<and> createDom env u markup = Inr page
        \<and> enhancePage env page = Inr enhanced
        \<and> readability env enhanced [''no-href'', ''anchor''] = Inr parsed \<longrightarrow>
        cleanup env u w =
          (Inr (spread_url parsed u),
           w\<lparr>trace := trace w @
                [SpinnerStart (''Fetching: '' @ u), Got u (''percollate/'' @ pkg_version env),
                 SpinnerSucceed None, SpinnerStart ''Enhancing web page'',
                 ReadabilityParse [''no-href'', ''anchor''], SpinnerSucceed None]\<rparr>))
   \<and> spread_url None u =
       \<lparr>title = None, byline = None, content = None, excerpt = None, url = u\<rparr>
   \<and> (\<forall>pre batch w1 e w2 post.
        for_urls env opts pre [] w = (Inr batch, w1) \<and> cleanup env u w1 = (Inl e, w2) \<longrightarrow>
        generateOutput env (pre @ u # post) opts w = (Inl e, w2))"
proof (intro conjI allI impI)
  fix e
  assume "got env (trace w @ [SpinnerStart (''Fetching: '' @ u)]) u
            (''percollate/'' @ pkg_version env) = Inl e"
  then show "cleanup env u w =
          (Inl e,
           w\<lparr>trace := trace w @
                [SpinnerStart (''Fetching: '' @ u), Got u (''percollate/'' @ pkg_version env),
                 SpinnerFail (message e)]\<rparr>)"
    by (rule cleanup_fetch_throws)
next
  fix markup e
  assume "got env (trace w @ [SpinnerStart (''Fetching: '' @ u)]) u
          (''percollate/'' @ pkg_version env) = Inr markup
        \<and> (createDom env u markup = Inl e
           \<or> (\<exists>page. createDom env u markup = Inr page \<and> enhancePage env page = Inl e))"
  then show "cleanup env u w =
          (Inl e,
           w\<lparr>trace := trace w @
                [SpinnerStart (''Fetching: '' @ u), Got u (''percollate/'' @ pkg_version env),
                 SpinnerSucceed None, SpinnerStart ''Enhancing web page'',
                 SpinnerFail (message e)]\<rparr>)"
    using cleanup_enhance_throws [of env w u markup e] by blast
next
  fix markup page enhanced e
  assume "got env (trace w @ [SpinnerStart (''Fetching: '' @ u)]) u
          (''percollate/'' @ pkg_version env) = Inr markup
        \<and> createDom env u markup = Inr page
        \<and> enhancePage env page = Inr enhanced
        \<and> readability env enhanced [''no-href'', ''anchor''] = Inl e"
  then show "cleanup env u w =
          (Inl e,
           w\<lparr>trace := trace w @
                [SpinnerStart (''Fetching: '' @ u), Got u (''percollate/'' @ pkg_version env),
                 SpinnerSucceed None, SpinnerStart ''Enhancing web page'',
                 ReadabilityParse [''no-href'', ''anchor''], SpinnerFail (message e)]\<rparr>)"
    using cleanup_extractor_throws [of env w u markup page enhanced e] by blast
next
  fix markup page enhanced parsed
  assume "got env (trace w @ [SpinnerStart (''Fetching: '' @ u)]) u
          (''percollate/'' @ pkg_version env) = Inr markup
        \<and> createDom env u markup = Inr page
        \<and> enhancePage env page = Inr enhanced
        \<and> readability env enhanced [''no-href'', ''anchor''] = Inr parsed"
  then show "cleanup env u w =
          (Inr (spread_url parsed u),
           w\<lparr>trace := trace w @
                [SpinnerStart (''Fetching: '' @ u), Got u (''percollate/'' @ pkg_version env),
                 SpinnerSucceed None, SpinnerStart ''Enhancing web page'',
                 ReadabilityParse [''no-href'', ''anchor''], SpinnerSucceed None]\<rparr>)"
    using cleanup_returns [of env w u markup page enhanced parsed] by blast
next
  show "spread_url None u =
       \<lparr>title = None, byline = None, content = None, excerpt = None, url = u\<rparr>"
    by (simp add: spread_url_def)
next
  fix pre batch w1 e w2 post
  assume "for_urls env opts pre [] w = (Inr batch, w1) \<and> cleanup env u w1 = (Inl e, w2)"
  then show "generateOutput env (pre @ u # post) opts w = (Inl e, w2)"
    by (blast intro: generateOutput_fails_with_cleanup)
qed

theorem cleanup_throws_again_and_ends_the_batch_witness:
  "cleanup failing_fetch_env ''http://a/1'' world0 =
     (Inl (Error ''boom''),
      world0\<lparr>trace := trace world0 @
         [SpinnerStart (''Fetching: '' @ ''http://a/1''),
          Got ''http://a/1'' (''percollate/'' @ pkg_version failing_fetch_env),
          SpinnerFail (message (Error ''boom''))]\<rparr>)
   \<and> cleanup null_extraction_env ''http://a/1'' world0 =
       (Inr (spread_url None ''http://a/1''),
        world0\<lparr>trace := trace world0 @
           [SpinnerStart (''Fetching: '' @ ''http://a/1''),
            Got ''http://a/1'' (''percollate/'' @ pkg_version null_extraction_env),
            SpinnerSucceed None, SpinnerStart ''Enhancing web page'',
            ReadabilityParse [''no-href'', ''anchor''], SpinnerSucceed None]\<rparr>)
   \<and> generateOutput failing_fetch_env ([''http://a/0''] @ ''http://a/1'' # [''http://a/2''])
         (test_options\<lparr>individual := True\<rparr>) world0 =
       (Inl (Error ''boom''),
        snd (cleanup failing_fetch_env ''http://a/1''
          (snd (for_urls failing_fetch_env (test_options\<lparr>individual := True\<rparr>)
                  [''http://a/0''] [] world0))))
   \<and> map artifact_path
         (artifacts (trace (snd (html null_extraction_env [''http://a/1'', ''http://a/2'']
                                   (test_options\<lparr>individual := True\<rparr>) world0)))) =
       [Some ''Untitled-page.html'', Some ''Untitled-page.html'']"
proof -
  let ?opts = "test_options\<lparr>individual := True\<rparr>"
  let ?u = "''http://a/1''"
  note failing = cleanup_throws_again_and_ends_the_batch [of failing_fetch_env world0 ?u ?opts]
  note null = cleanup_throws_again_and_ends_the_batch [of null_extraction_env world0 ?u ?opts]
  have fetch: "got failing_fetch_env (trace world0 @ [SpinnerStart (''Fetching: '' @ ?u)]) ?u
                 (''percollate/'' @ pkg_version failing_fetch_env) = Inl (Error ''boom'')"
    by (simp add: failing_fetch_env_def)
  have 1: "cleanup failing_fetch_env ?u world0 =
     (Inl (Error ''boom''),
      world0\<lparr>trace := trace world0 @
         [SpinnerStart (''Fetching: '' @ ?u),
          Got ?u (''percollate/'' @ pkg_version failing_fetch_env),
          SpinnerFail (message (Error ''boom''))]\<rparr>)"
    using failing [THEN conjunct1, rule_format, OF fetch] .
  obtain page where page: "createDom null_extraction_env ?u ''<div>text</div>'' = Inr page"
    by (simp add: createDom_def new_JSDOM_url_def null_extraction_env_def test_env_sel)
  have steps: "got null_extraction_env (trace world0 @ [SpinnerStart (''Fetching: '' @ ?u)]) ?u
                 (''percollate/'' @ pkg_version null_extraction_env) = Inr ''<div>text</div>''
        \<and> createDom null_extraction_env ?u ''<div>text</div>'' = Inr page
        \<and> enhancePage null_extraction_env page = Inr page
        \<and> readability null_extraction_env page [''no-href'', ''anchor''] = Inr None"
    using page by (simp add: enhancePage_def null_extraction_env_def test_env_sel)
  have 2: "cleanup null_extraction_env ?u world0 =
       (Inr (spread_url None ?u),
        world0\<lparr>trace := trace world0 @
           [SpinnerStart (''Fetching: '' @ ?u),
            Got ?u (''percollate/'' @ pkg_version null_extraction_env),
            SpinnerSucceed None, SpinnerStart ''Enhancing web page'',
            ReadabilityParse [''no-href'', ''anchor''], SpinnerSucceed None]\<rparr>)"
    using null [THEN conjunct2, THEN conjunct2, THEN conjunct2, THEN conjunct1, rule_format,
        OF steps] .
  let ?w1 = "snd (for_urls failing_fetch_env ?opts [''http://a/0''] [] world0)"
  have "fst (for_urls failing_fetch_env ?opts [''http://a/0''] [] world0) = Inr []"
    by (simp add: run_defs failing_fetch_env_def)
  then have h1: "for_urls failing_fetch_env ?opts [''http://a/0''] [] world0 = (Inr [], ?w1)"
    by (simp add: prod_eq_iff)
  have "fst (cleanup failing_fetch_env ?u ?w1) = Inl (Error ''boom'')"
    using failing [THEN conjunct1, rule_format, of "Error ''boom''"]
      cleanup_fetch_throws [of failing_fetch_env ?w1 ?u "Error ''boom''"]
    by (simp add: failing_fetch_env_def)
  then have h2: "cleanup failing_fetch_env ?u ?w1 =
                 (Inl (Error ''boom''), snd (cleanup failing_fetch_env ?u ?w1))"
    by (simp only: prod_eq_iff fst_conv snd_conv simp_thms)
  have both: "for_urls failing_fetch_env ?opts [''http://a/0''] [] world0 = (Inr [], ?w1)
              \<and> cleanup failing_fetch_env ?u ?w1 =
                  (Inl (Error ''boom''), snd (cleanup failing_fetch_env ?u ?w1))"
    using h1 h2 by (rule conjI)
  have 3: "generateOutput failing_fetch_env ([''http://a/0''] @ ?u # [''http://a/2'']) ?opts world0 =
       (Inl (Error ''boom''), snd (cleanup failing_fetch_env ?u ?w1))"
    using failing [THEN conjunct2, THEN conjunct2, THEN conjunct2, THEN conjunct2,
        THEN conjunct2, rule_format, OF both] .
  have 4: "map artifact_path
         (artifacts (trace (snd (html null_extraction_env [''http://a/1'', ''http://a/2'']
                                   ?opts world0)))) =
       [Some ''Untitled-page.html'', Some ''Untitled-page.html'']"
    by (simp add: run_defs null_extraction_env_def)
  from 1 2 3 4 show ?thesis by (intro conjI)
qed

section \<open>What \<open>cleanup\<close> and \<open>bundle\<close> add to the trace\<close>

lemma cleanup_extracts:
  "wp (cleanup env u)
     (\<lambda>e w'. extractions (trace w') = extractions (trace w)
            \<or> extractions (trace w') = extractions (trace w) @ [[''no-href'', ''anchor'']])
     (\<lambda>item w'. url item = u
            \<and> extractions (trace w') = extractions (trace w) @ [[''no-href'', ''anchor'']]) w"
  unfolding program_defs
  by (intro wp_rules; (drule emitted_extractions)+;
      simp add: classesToPreserve_def spread_url_def split: option.splits)

lemma bundle_extracts_nothing:
  "wp (bundle_items env items opts)
     (\<lambda>e w'. extractions (trace w') = extractions (trace w))
     (\<lambda>_ w'. extractions (trace w') = extractions (trace w)) w"
  unfolding program_defs
  by (intro wp_rules; (drule emitted_extractions)+; simp)



lemma bundle_browser:
  "wp (bundle_items env items opts)
     (\<lambda>e w'. open_browsers w' + pages (trace w) = open_browsers w + pages (trace w')
        \<and> (closes (trace w') = closes (trace w) \<or> last (trace w') = BrowserClose))
     (\<lambda>_ w'. open_browsers w' = open_browsers w
        \<and> closes (trace w') = Suc (closes (trace w))
        \<and> pages (trace w') = Suc (pages (trace w))) w"
  unfolding program_defs
  by (intro wp_rules; (drule emitted_browser)+; simp)

section \<open>Invariants of the loop\<close>

lemma for_urls_invariant:
  assumes cl: "\<And>u w. I w \<Longrightarrow> I (snd (cleanup env u w))"
    and bu: "\<And>items w. I w \<Longrightarrow> I (snd (bundle_items env items opts w))"
    and "I w"
  shows "I (snd (for_urls env opts urls items w))"
  using \<open>I w\<close>
proof (induction urls arbitrary: items w)
  case Nil
  then show ?case by simp
next
  case (Cons u urls)
  obtain r w1 where c: "cleanup env u w = (r, w1)"
    by (cases "cleanup env u w")
  have w1: "I w1"
    using cl [OF Cons.prems, of u] c by simp
  show ?case
  proof (cases r)
    case (Inl e)
    with c w1 show ?thesis by simp
  next
    case (Inr item)
    show ?thesis
    proof (cases "individual opts")
      case False
      with c Inr Cons.IH [OF w1] show ?thesis by simp
    next
      case True
      obtain r2 w2 where b: "bundle_items env [item] opts w1 = (r2, w2)"
        by (cases "bundle_items env [item] opts w1")
      have w2: "I w2"
        using bu [OF w1, of "[item]"] b by simp
      show ?thesis
        using c Inr True b w2 Cons.IH [OF w2] by (cases r2) simp_all
    qed
  qed
qed

lemma generateOutput_invariant:
  assumes cl: "\<And>u w. I w \<Longrightarrow> I (snd (cleanup env u w))"
    and bu: "\<And>items w. I w \<Longrightarrow> I (snd (bundle_items env items opts w))"
    and "I w"
  shows "I (snd (generateOutput env urls opts w))"
proof -
  obtain r w1 where f: "for_urls env opts urls [] w = (r, w1)"
    by (cases "for_urls env opts urls [] w")
  have w1: "I w1"
    using for_urls_invariant [where I = I, OF cl bu \<open>I w\<close>, of urls "[]"] f by simp
  show ?thesis
    using f w1 \<open>I w\<close> bu [OF w1]
    by (cases r) (simp_all add: generateOutput_def)
qed

section \<open>Extraction\<close>

lemma extractions_after_cleanup:
  assumes "extractions (trace w) = xs @ replicate n [''no-href'', ''anchor'']"
  shows "\<exists>n. extractions (trace (snd (cleanup env u w))) = xs @ replicate n [''no-href'', ''anchor'']"
proof -
  let ?C = "[''no-href'', ''anchor'']"
  let ?I = "\<lambda>w' :: world. \<exists>n. extractions (trace w') = xs @ replicate n ?C"
  have "wp (cleanup env u) (\<lambda>_. ?I) (\<lambda>_. ?I) w"
  proof (rule wp_mono [OF cleanup_extracts])
    fix e :: error and w' :: world
    assume "extractions (trace w') = extractions (trace w)
            \<or> extractions (trace w') = extractions (trace w) @ [?C]"
    then have "extractions (trace w') = xs @ replicate n ?C
               \<or> extractions (trace w') = xs @ replicate (Suc n) ?C"
      using assms by (simp add: replicate_append_same)
    then show "?I w'" by blast
  next
    fix item :: article and w' :: world
    assume "url item = u \<and> extractions (trace w') = extractions (trace w) @ [?C]"
    then have "extractions (trace w') = xs @ replicate (Suc n) ?C"
      using assms by (simp add: replicate_append_same)
    then show "?I w'" by blast
  qed
  then show ?thesis by (rule wp_snd)
qed

lemma extractions_after_bundle:
  "extractions (trace (snd (bundle_items env items opts w))) = extractions (trace w)"
  using wp_snd [OF bundle_extracts_nothing, of env items opts w] by simp

text \<open>
  C8. \<open>cleanup\<close> hands Readability the option \<open>classesToPreserve: ['no-href', 'anchor']\<close>:
  a call of \<open>cleanup\<close> that returns an item has made exactly one extraction, with these
  two classes, and the item carries the URL it was called with; and in a whole run of
  \<open>generateOutput\<close> every extraction that is made is made with these two classes.
\<close>

theorem extraction_preserves_the_two_classes:
  "(\<forall>item w'. cleanup env u w = (Inr item, w') \<longrightarrow>
      url item = u
      \<and> extractions (trace w') = extractions (trace w) @ [[''no-href'', ''anchor'']])
   \<and> (\<exists>n. extractions (trace (snd (generateOutput env urls opts w))) =
           extractions (trace w) @ replicate n [''no-href'', ''anchor''])"
proof (intro conjI allI impI)
  fix item w'
  assume "cleanup env u w = (Inr item, w')"
  from wpD [OF this cleanup_extracts]
  show "url item = u" and
    "extractions (trace w') = extractions (trace w) @ [[''no-href'', ''anchor'']]"
    by simp_all
next
  let ?C = "[''no-href'', ''anchor'']"
  let ?I = "\<lambda>w' :: world. \<exists>n. extractions (trace w') = extractions (trace w) @ replicate n ?C"
  have start: "?I w"
    by (rule exI [of _ 0]) simp
  have "?I (snd (generateOutput env urls opts w))"
  proof (rule generateOutput_invariant [where I = ?I, OF _ _ start])
    fix u' and w1 :: world
    assume "?I w1"
    then obtain n where "extractions (trace w1) = extractions (trace w) @ replicate n ?C" ..
    then show "?I (snd (cleanup env u' w1))"
      by (rule extractions_after_cleanup)
  next
    fix items and w1 :: world
    assume "?I w1"
    then show "?I (snd (bundle_items env items opts w1))"
      by (simp add: extractions_after_bundle)
  qed
  then show "\<exists>n. extractions (trace (snd (generateOutput env urls opts w))) =
                 extractions (trace w) @ replicate n ?C" .
qed

theorem extraction_preserves_the_two_classes_witness:
  "url (spread_url (Some \<lparr>title = Some ''Hello World!'', byline = None,
                           content = Some ''text'', excerpt = None\<rparr>) ''http://a/1'') = ''http://a/1''
   \<and> extractions (trace (snd (cleanup test_env ''http://a/1'' world0))) =
       extractions (trace world0) @ [[''no-href'', ''anchor'']]"
proof -
  have run: "cleanup test_env ''http://a/1'' world0 =
      (Inr (spread_url (Some \<lparr>title = Some ''Hello World!'', byline = None,
                               content = Some ''text'', excerpt = None\<rparr>) ''http://a/1''),
       snd (cleanup test_env ''http://a/1'' world0))"
    by (simp add: prod_eq_iff cleanup_defs step_defs test_env_sel)
  from extraction_preserves_the_two_classes [of test_env "''http://a/1''" world0 "[]" test_options]
  have "\<forall>item w'. cleanup test_env ''http://a/1'' world0 = (Inr item, w') \<longrightarrow>
      url item = ''http://a/1''
      \<and> extractions (trace w') = extractions (trace world0) @ [[''no-href'', ''anchor'']]"
    by (rule conjunct1)
  with run show ?thesis by blast
qed

section \<open>The merged document\<close>





section \<open>The staging browser\<close>

text \<open>
  C2, as the code has it. \<open>bundle\<close> has no \<open>try\<close> and no \<open>finally\<close>. When it returns
  normally it has opened one page and called \<open>browser.close()\<close> once, and as many browsers
  are open as before. When it throws, one more browser is open for every page it has
  opened (a page is opened exactly when \<open>pup.launch\<close> has succeeded), and
  \<open>browser.close()\<close> has not been called unless it is that call which threw.
\<close>

theorem bundle_closes_browser_when_it_returns:
  assumes "bundle_items env items opts w = (r, w')"
  shows "case r of
           Inr _ \<Rightarrow> open_browsers w' = open_browsers w
                    \<and> closes (trace w') = Suc (closes (trace w))
                    \<and> pages (trace w') = Suc (pages (trace w))
         | Inl e \<Rightarrow> open_browsers w' + pages (trace w) = open_browsers w + pages (trace w')
                    \<and> (closes (trace w') = closes (trace w) \<or> last (trace w') = BrowserClose)"
  using wpD [OF assms bundle_browser] by (cases r) simp_all

theorem bundle_closes_browser_when_it_returns_witness:
  "open_browsers (snd (bundle_items test_env [test_item] test_options world0)) =
     open_browsers world0
   \<and> closes (trace (snd (bundle_items test_env [test_item] test_options world0))) =
       Suc (closes (trace world0))
   \<and> pages (trace (snd (bundle_items test_env [test_item] test_options world0))) =
       Suc (pages (trace world0))"
proof -
  have "fst (bundle_items test_env [test_item] test_options world0) = Inr ()"
    by (simp add: run_defs test_item_def)
  then have run: "bundle_items test_env [test_item] test_options world0 =
                  (Inr (), snd (bundle_items test_env [test_item] test_options world0))"
    by (simp add: prod_eq_iff)
  from bundle_closes_browser_when_it_returns [OF run] show ?thesis
    by simp
qed

text \<open>
  C2 as stated fails: when \<open>page.pdf\<close> throws, \<open>bundle\<close> throws, \<open>browser.close()\<close> has
  not been called and the browser that was launched is still open.
\<close>

theorem failed_pdf_leaves_browser_open:
  "fst (bundle_items failing_pdf_env [test_item] test_options world0) = Inl (Error ''render failed'')
   \<and> open_browsers (snd (bundle_items failing_pdf_env [test_item] test_options world0)) = 1
   \<and> closes (trace (snd (bundle_items failing_pdf_env [test_item] test_options world0))) = 0"
  by (simp add: run_defs test_item_def failing_pdf_env_def)

section \<open>The output file name\<close>

lemma or_else_cases:
  "truthy s \<Longrightarrow> or_else s d = the s"
  "\<not> truthy s \<Longrightarrow> or_else s d = d"
  by (auto simp: or_else_def truthy_def split: option.splits)

text \<open>
  \<open>bundle\<close> up to line 216: once the document is composed, the fragments are made and the
  browser is staged, the rest of \<open>bundle\<close> is the target's writer, run on the name
  \<open>output_path\<close> has at that point, and the closing of the browser.
\<close>

lemma bundle_after_staging:
  assumes "compose env items opts w = (Inr (temp_file, style_text, html_text), w1)"
    and "print_fragments env html_text style_text = Inr (header, footer)"
    and "stage env opts temp_file html_text w1 = (Inr (), w2)"
  shows "bundle_items env items opts w =
           andThen
             (save env items header footer
                (output_path env opts items
                   (w2\<lparr>trace := trace w2 @ [SpinnerStart ''Setting output file name.'']\<rparr>)))
             (\<lambda>_. close_browser env)
             (w2\<lparr>trace := trace w2 @
                [SpinnerStart ''Setting output file name.'',
                 SpinnerSucceed (Some (''Set output file name to: '' @
                   output_path env opts items
                     (w2\<lparr>trace := trace w2 @ [SpinnerStart ''Setting output file name.'']\<rparr>)))]\<rparr>)"
  using assms
  by (simp add: bundle_items_def name_output_def andThen_def lift_def emit_def gets_def ret_def)

text \<open>
  C5. The name \<open>bundle\<close> gives its writer is \<open>output_path\<close>: a non-empty \<open>options.output\<close>
  as it is; otherwise, for exactly one item, the slug of its title, or of
  \<open>Untitled page\<close> when the title is empty or absent, then a dot and \<open>cmd\<close>; otherwise,
  for more than one item, \<open>percollate-\<close>, the digits of \<open>Date.now()\<close>, a dot and \<open>cmd\<close>.
\<close>

theorem output_name_policy:
  "(\<forall>p. output_path_opt opts = Some p \<and> p \<noteq> [] \<longrightarrow> output_path env opts items w = p)
   \<and> (\<forall>item t. \<not> truthy (output_path_opt opts) \<and> items = [item] \<and> title item = Some t \<and> t \<noteq> [] \<longrightarrow>
         output_path env opts items w = slugify env t @ ''.'' @ cmd w)
   \<and> (\<forall>item. \<not> truthy (output_path_opt opts) \<and> items = [item] \<and> \<not> truthy (title item) \<longrightarrow>
         output_path env opts items w = slugify env ''Untitled page'' @ ''.'' @ cmd w)
   \<and> (\<not> truthy (output_path_opt opts) \<and> 1 < length items \<longrightarrow>
         output_path env opts items w =
           ''percollate-'' @ digits (date_now env (trace w)) @ ''.'' @ cmd w)
   \<and> (\<forall>temp_file style_text html_text w1 header footer w2.
         compose env items opts w = (Inr (temp_file, style_text, html_text), w1)
         \<and> print_fragments env html_text style_text = Inr (header, footer)
         \<and> stage env opts temp_file html_text w1 = (Inr (), w2) \<longrightarrow>
         bundle_items env items opts w =
           andThen
             (save env items header footer
                (output_path env opts items
                   (w2\<lparr>trace := trace w2 @ [SpinnerStart ''Setting output file name.'']\<rparr>)))
             (\<lambda>_. close_browser env)
             (w2\<lparr>trace := trace w2 @
                [SpinnerStart ''Setting output file name.'',
                 SpinnerSucceed (Some (''Set output file name to: '' @
                   output_path env opts items
                     (w2\<lparr>trace := trace w2 @ [SpinnerStart ''Setting output file name.'']\<rparr>)))]\<rparr>))"
proof (intro conjI allI impI)
  fix p
  assume "output_path_opt opts = Some p \<and> p \<noteq> []"
  then show "output_path env opts items w = p"
    by (simp add: output_path_def or_else_def)
next
  fix item t
  assume "\<not> truthy (output_path_opt opts) \<and> items = [item] \<and> title item = Some t \<and> t \<noteq> []"
  then show "output_path env opts items w = slugify env t @ ''.'' @ cmd w"
    by (simp add: output_path_def or_else_cases(2)) (simp add: or_else_def)
next
  fix item
  assume "\<not> truthy (output_path_opt opts) \<and> items = [item] \<and> \<not> truthy (title item)"
  then show "output_path env opts items w = slugify env ''Untitled page'' @ ''.'' @ cmd w"
    by (simp add: output_path_def or_else_cases(2))
next
  assume "\<not> truthy (output_path_opt opts) \<and> 1 < length items"
  then show "output_path env opts items w =
               ''percollate-'' @ digits (date_now env (trace w)) @ ''.'' @ cmd w"
    by (simp add: output_path_def or_else_cases(2))
next
  fix temp_file style_text html_text w1 header footer w2
  assume "compose env items opts w = (Inr (temp_file, style_text, html_text), w1)
          \<and> print_fragments env html_text style_text = Inr (header, footer)
          \<and> stage env opts temp_file html_text w1 = (Inr (), w2)"
  then show "bundle_items env items opts w =
           andThen
             (save env items header footer
                (output_path env opts items
                   (w2\<lparr>trace := trace w2 @ [SpinnerStart ''Setting output file name.'']\<rparr>)))
             (\<lambda>_. close_browser env)
             (w2\<lparr>trace := trace w2 @
                [SpinnerStart ''Setting output file name.'',
                 SpinnerSucceed (Some (''Set output file name to: '' @
                   output_path env opts items
                     (w2\<lparr>trace := trace w2 @ [SpinnerStart ''Setting output file name.'']\<rparr>)))]\<rparr>)"
    by (blast intro: bundle_after_staging)
qed

theorem output_name_policy_witness:
  "output_path test_env (test_options\<lparr>output_path_opt := Some ''out.pdf''\<rparr>) [test_item] world0
     = ''out.pdf''
   \<and> output_path test_env test_options [test_item] world0 = ''Hello-World!.pdf''
   \<and> output_path test_env test_options [test_item\<lparr>title := Some []\<rparr>] world0
       = ''Untitled-page.pdf''
   \<and> output_path test_env test_options [test_item, test_item] world0
       = ''percollate-1500000000000.pdf''"
proof -
  have falsy: "\<not> truthy (output_path_opt test_options)"
    by (simp add: truthy_def test_options_def)
  have 1: "output_path test_env (test_options\<lparr>output_path_opt := Some ''out.pdf''\<rparr>)
             [test_item] world0 = ''out.pdf''"
    using output_name_policy
      [of "test_options\<lparr>output_path_opt := Some ''out.pdf''\<rparr>" test_env "[test_item]" world0]
    by simp
  have 2: "output_path test_env test_options [test_item] world0 = ''Hello-World!.pdf''"
    using output_name_policy [of test_options test_env "[test_item]" world0] falsy
    by (simp add: test_item_def test_env_sel world0_def)
  have 3: "output_path test_env test_options [test_item\<lparr>title := Some []\<rparr>] world0
             = ''Untitled-page.pdf''"
    using output_name_policy
      [of test_options test_env "[test_item\<lparr>title := Some []\<rparr>]" world0] falsy
    by (simp add: truthy_def test_env_sel world0_def)
  have 4: "output_path test_env test_options [test_item, test_item] world0
             = ''percollate-1500000000000.pdf''"
    using output_name_policy [of test_options test_env "[test_item, test_item]" world0] falsy
    by (simp add: test_env_sel world0_def digits.simps)
  from 1 2 3 4 show ?thesis by simp
qed

section \<open>The header and footer fragments\<close>







section \<open>The target format\<close>








section \<open>Failures of the target's writer\<close>

lemma save_pdf_fails:
  assumes "cmd w = ''pdf''"
    and "page_pdf env (trace w @ [SpinnerStart ''Saving PDF'']) path
           (inner_html env (body header)) (inner_html env (body footer)) = Inl e"
  shows "fst (save env items header footer path w) = Inl e"
  using assms by (simp add: save_def save_pdf_def step_defs)

lemma save_evaluate_fails:
  assumes "cmd w = ''epub'' \<or> cmd w = ''html''"
    and "evaluate env
           (trace w @ [SpinnerStart (if cmd w = ''epub'' then ''Saving EPUB'' else ''Saving HTML'')])
         = Inl e"
  shows "fst (save env items header footer path w) = Inl e"
  using assms by (auto simp: save_def save_epub_def save_html_def step_defs)

lemma save_html_logs_write_error:
  assumes "cmd w = ''html''"
    and "evaluate env (trace w @ [SpinnerStart ''Saving HTML'']) = Inr bodyHTML"
    and "write_file env (trace w @ [SpinnerStart ''Saving HTML'', Evaluate]) path bodyHTML = Inr err"
  shows "save env items header footer path w =
           (Inr (),
            w\<lparr>trace := trace w @
                 [SpinnerStart ''Saving HTML'', Evaluate, WriteFile path bodyHTML,
                  SpinnerSucceed (Some (''Saved HTML: '' @ path))],
               console := console w @ (case err of None \<Rightarrow> [] | Some e \<Rightarrow> [message e])\<rparr>)"
  using assms
  by (simp add: save_def save_html_def fs_writeFile_def step_defs split: option.splits)

lemma save_html_write_throws:
  assumes "cmd w = ''html''"
    and "evaluate env (trace w @ [SpinnerStart ''Saving HTML'']) = Inr bodyHTML"
    and "write_file env (trace w @ [SpinnerStart ''Saving HTML'', Evaluate]) path bodyHTML = Inl e"
  shows "save env items header footer path w =
           (Inl e,
            w\<lparr>trace := trace w @
                 [SpinnerStart ''Saving HTML'', Evaluate, WriteFile path bodyHTML]\<rparr>)"
  using assms
  by (simp add: save_def save_html_def fs_writeFile_def step_defs)

lemma bundle_fails_with_save:
  assumes "compose env items opts w = (Inr (temp_file, style_text, html_text), w1)"
    and "print_fragments env html_text style_text = Inr (header, footer)"
    and "stage env opts temp_file html_text w1 = (Inr (), w2)"
    and "save env items header footer
           (output_path env opts items
              (w2\<lparr>trace := trace w2 @ [SpinnerStart ''Setting output file name.'']\<rparr>))
           (w2\<lparr>trace := trace w2 @
              [SpinnerStart ''Setting output file name.'',
               SpinnerSucceed (Some (''Set output file name to: '' @
                 output_path env opts items
                   (w2\<lparr>trace := trace w2 @ [SpinnerStart ''Setting output file name.'']\<rparr>)))]\<rparr>)
         = (Inl e, w3)"
  shows "bundle_items env items opts w = (Inl e, w3)"
  unfolding bundle_after_staging [OF assms(1-3)] using assms(4)
  by (simp add: andThen_def)

lemma generateOutput_fails_with_bundle:
  assumes "individual opts"
    and "for_urls env opts pre [] w = (Inr batch, w1)"
    and "cleanup env u w1 = (Inr item, w2)"
    and "bundle_items env [item] opts w2 = (Inl e, w3)"
  shows "generateOutput env (pre @ u # post) opts w = (Inl e, w3)"
proof -
  have "for_urls env opts (pre @ u # post) [] w = for_urls env opts (u # post) batch w1"
    using assms(2) by (rule for_urls_append)
  then show ?thesis
    using assms(1,3,4) by (simp add: generateOutput_def)
qed

lemma generateOutput_fails_with_merged_bundle:
  assumes "\<not> individual opts"
    and "urls \<noteq> []"
    and "for_urls env opts urls [] w = (Inr batch, w1)"
    and "bundle_items env batch opts w1 = (Inl e, w2)"
  shows "generateOutput env urls opts w = (Inl e, w2)"
  using assms by (simp add: generateOutput_def)

text \<open>
  C3, as the code has it. A failure of the renderer is fatal and reaches the caller: when
  \<open>page.pdf\<close> (target pdf) or \<open>page.evaluate\<close> (targets epub and html) throws, the writer
  throws that error, \<open>bundle\<close> throws it in the state the writer left (nothing is done
  after the failure), and so does \<open>generateOutput\<close>. For the html target, an error that
  \<open>fs.writeFile\<close> gives to its callback is not a failure: the callback prints it with
  \<open>console.log\<close>, and the writer reports \<open>Saved HTML\<close> and returns normally; only an
  exception that the call of \<open>fs.writeFile\<close> throws itself (an argument it refuses) is
  thrown by the writer, before \<open>Saved HTML\<close> is reported. The code removes no file.
\<close>

theorem render_failure_is_thrown_write_error_is_printed:
  "(\<forall>e. cmd w = ''pdf''
        \<and> page_pdf env (trace w @ [SpinnerStart ''Saving PDF'']) path
             (inner_html env (body header)) (inner_html env (body footer)) = Inl e \<longrightarrow>
        fst (save env items header footer path w) = Inl e)
   \<and> (\<forall>e. (cmd w = ''epub'' \<or> cmd w = ''html'')
        \<and> evaluate env
             (trace w @ [SpinnerStart (if cmd w = ''epub'' then ''Saving EPUB'' else ''Saving HTML'')])
           = Inl e \<longrightarrow>
        fst (save env items header footer path w) = Inl e)
   \<and> (\<forall>temp_file style_text html_text w1 w2 e w3.
        compose env items opts w = (Inr (temp_file, style_text, html_text), w1)
        \<and> print_fragments env html_text style_text = Inr (header, footer)
        \<and> stage env opts temp_file html_text w1 = (Inr (), w2)
        \<and> save env items header footer
             (output_path env opts items
                (w2\<lparr>trace := trace w2 @ [SpinnerStart ''Setting output file name.'']\<rparr>))
             (w2\<lparr>trace := trace w2 @
                [SpinnerStart ''Setting output file name.'',
                 SpinnerSucceed (Some (''Set output file name to: '' @
                   output_path env opts items
                     (w2\<lparr>trace := trace w2 @ [SpinnerStart ''Setting output file name.'']\<rparr>)))]\<rparr>)
           = (Inl e, w3) \<longrightarrow>
        bundle_items env items opts w = (Inl e, w3))
   \<and> (\<forall>pre u post item batch w1 w2 e w3.
        individual opts
        \<and> for_urls env opts pre [] w = (Inr batch, w1)
        \<and> cleanup env u w1 = (Inr item, w2)
        \<and> bundle_items env [item] opts w2 = (Inl e, w3) \<longrightarrow>
        generateOutput env (pre @ u # post) opts w = (Inl e, w3))
   \<and> (\<forall>urls batch w1 e w2.
        \<not> individual opts \<and> urls \<noteq> []
        \<and> for_urls env opts urls [] w = (Inr batch, w1)
        \<and> bundle_items env batch opts w1 = (Inl e, w2) \<longrightarrow>
        generateOutput env urls opts w = (Inl e, w2))
   \<and> (\<forall>bodyHTML err. cmd w = ''html''
        \<and> evaluate env (trace w @ [SpinnerStart ''Saving HTML'']) = Inr bodyHTML
        \<and> write_file env (trace w @ [SpinnerStart ''Saving HTML'', Evaluate]) path bodyHTML
            = Inr err \<longrightarrow>
        save env items header footer path w =
          (Inr (),
           w\<lparr>trace := trace w @
                [SpinnerStart ''Saving HTML'', Evaluate, WriteFile path bodyHTML,
                 SpinnerSucceed (Some (''Saved HTML: '' @ path))],
              console := console w @ (case err of None \<Rightarrow> [] | Some e \<Rightarrow> [message e])\<rparr>))
   \<and> (\<forall>bodyHTML e. cmd w = ''html''
        \<and> evaluate env (trace w @ [SpinnerStart ''Saving HTML'']) = Inr bodyHTML
        \<and> write_file env (trace w @ [SpinnerStart ''Saving HTML'', Evaluate]) path bodyHTML
            = Inl e \<longrightarrow>
        save env items header footer path w =
          (Inl e,
           w\<lparr>trace := trace w @
                [SpinnerStart ''Saving HTML'', Evaluate, WriteFile path bodyHTML]\<rparr>))"
proof (intro conjI allI impI)
  fix e
  assume "cmd w = ''pdf''
        \<and> page_pdf env (trace w @ [SpinnerStart ''Saving PDF'']) path
             (inner_html env (body header)) (inner_html env (body footer)) = Inl e"
  then show "fst (save env items header footer path w) = Inl e"
    by (simp add: save_pdf_fails)
next
  fix e
  assume "(cmd w = ''epub'' \<or> cmd w = ''html'')
        \<and> evaluate env
             (trace w @ [SpinnerStart (if cmd w = ''epub'' then ''Saving EPUB'' else ''Saving HTML'')])
           = Inl e"
  then show "fst (save env items header footer path w) = Inl e"
    by (blast intro: save_evaluate_fails)
next
  fix temp_file style_text html_text w1 w2 e w3
  assume "compose env items opts w = (Inr (temp_file, style_text, html_text), w1)
        \<and> print_fragments env html_text style_text = Inr (header, footer)
        \<and> stage env opts temp_file html_text w1 = (Inr (), w2)
        \<and> save env items header footer
             (output_path env opts items
                (w2\<lparr>trace := trace w2 @ [SpinnerStart ''Setting output file name.'']\<rparr>))
             (w2\<lparr>trace := trace w2 @
                [SpinnerStart ''Setting output file name.'',
                 SpinnerSucceed (Some (''Set output file name to: '' @
                   output_path env opts items
                     (w2\<lparr>trace := trace w2 @ [SpinnerStart ''Setting output file name.'']\<rparr>)))]\<rparr>)
           = (Inl e, w3)"
  then show "bundle_items env items opts w = (Inl e, w3)"
    by (blast intro: bundle_fails_with_save)
next
  fix pre u post item batch w1 w2 e w3
  assume "individual opts
        \<and> for_urls env opts pre [] w = (Inr batch, w1)
        \<and> cleanup env u w1 = (Inr item, w2)
        \<and> bundle_items env [item] opts w2 = (Inl e, w3)"
  then show "generateOutput env (pre @ u # post) opts w = (Inl e, w3)"
    by (blast intro: generateOutput_fails_with_bundle)
next
  fix urls batch w1 e w2
  assume "\<not> individual opts \<and> urls \<noteq> []
        \<and> for_urls env opts urls [] w = (Inr batch, w1)
        \<and> bundle_items env batch opts w1 = (Inl e, w2)"
  then show "generateOutput env urls opts w = (Inl e, w2)"
    by (blast intro: generateOutput_fails_with_merged_bundle)
next
  fix bodyHTML err
  assume "cmd w = ''html''
        \<and> evaluate env (trace w @ [SpinnerStart ''Saving HTML'']) = Inr bodyHTML
        \<and> write_file env (trace w @ [SpinnerStart ''Saving HTML'', Evaluate]) path bodyHTML
            = Inr err"
  then show "save env items header footer path w =
          (Inr (),
           w\<lparr>trace := trace w @
                [SpinnerStart ''Saving HTML'', Evaluate, WriteFile path bodyHTML,
                 SpinnerSucceed (Some (''Saved HTML: '' @ path))],
              console := console w @ (case err of None \<Rightarrow> [] | Some e \<Rightarrow> [message e])\<rparr>)"
    by (simp add: save_html_logs_write_error)
next
  fix bodyHTML e
  assume "cmd w = ''html''
        \<and> evaluate env (trace w @ [SpinnerStart ''Saving HTML'']) = Inr bodyHTML
        \<and> write_file env (trace w @ [SpinnerStart ''Saving HTML'', Evaluate]) path bodyHTML
            = Inl e"
  then show "save env items header footer path w =
          (Inl e,
           w\<lparr>trace := trace w @
                [SpinnerStart ''Saving HTML'', Evaluate, WriteFile path bodyHTML]\<rparr>)"
    by (simp add: save_html_write_throws)
qed

text \<open>
  C3 as stated fails: with the html target and an \<open>fs.writeFile\<close> that gives an error to
  its callback, the call returns normally, and the error has only been printed.
\<close>

theorem failed_write_is_only_printed:
  "fst (html failing_write_env [''http://a/1''] test_options world0) = Inr ()
   \<and> console (snd (html failing_write_env [''http://a/1''] test_options world0)) =
       [''Generating HTML output'', ''EACCES'']
   \<and> last (trace (snd (html failing_write_env [''http://a/1''] test_options world0))) =
       SpinnerSucceed (Some ''All done.'')"
  by (simp add: run_defs failing_write_env_def)

theorem render_failure_is_thrown_write_error_is_printed_witness:
  "fst (save failing_pdf_env [test_item] (parse_html test_env []) (parse_html test_env [])
          ''out.pdf'' world0) = Inl (Error ''render failed'')
   \<and> save failing_write_env [test_item] (parse_html test_env []) (parse_html test_env [])
         ''out.html'' (world0\<lparr>cmd := ''html''\<rparr>) =
       (Inr (),
        world0\<lparr>cmd := ''html'',
          trace := trace (world0\<lparr>cmd := ''html''\<rparr>) @
            [SpinnerStart ''Saving HTML'', Evaluate, WriteFile ''out.html'' ''<div>text</div>'',
             SpinnerSucceed (Some (''Saved HTML: '' @ ''out.html''))],
          console := console (world0\<lparr>cmd := ''html''\<rparr>) @ [''EACCES'']\<rparr>)
   \<and> save throwing_write_env [test_item] (parse_html test_env []) (parse_html test_env [])
         ''out.html'' (world0\<lparr>cmd := ''html''\<rparr>) =
       (Inl (Error ''ERR_INVALID_ARG_VALUE''),
        world0\<lparr>cmd := ''html'',
          trace := trace (world0\<lparr>cmd := ''html''\<rparr>) @
            [SpinnerStart ''Saving HTML'', Evaluate, WriteFile ''out.html'' ''<div>text</div>'']\<rparr>)"
proof -
  let ?d = "parse_html test_env []"
  have pdf: "cmd world0 = ''pdf''
        \<and> page_pdf failing_pdf_env (trace world0 @ [SpinnerStart ''Saving PDF'']) ''out.pdf''
             (inner_html failing_pdf_env (body ?d)) (inner_html failing_pdf_env (body ?d))
           = Inl (Error ''render failed'')"
    by (simp add: world0_def failing_pdf_env_def)
  have 1: "fst (save failing_pdf_env [test_item] ?d ?d ''out.pdf'' world0) = Inl (Error ''render failed'')"
    using render_failure_is_thrown_write_error_is_printed
      [of world0 failing_pdf_env "''out.pdf''" ?d ?d "[test_item]" test_options,
       THEN conjunct1, rule_format, OF pdf] .
  let ?w = "world0\<lparr>cmd := ''html''\<rparr>"
  have printed: "cmd ?w = ''html''
        \<and> evaluate failing_write_env (trace ?w @ [SpinnerStart ''Saving HTML'']) = Inr ''<div>text</div>''
        \<and> write_file failing_write_env (trace ?w @ [SpinnerStart ''Saving HTML'', Evaluate])
              ''out.html'' ''<div>text</div>'' = Inr (Some (Error ''EACCES''))"
    by (simp add: failing_write_env_def test_env_sel)
  have 2: "save failing_write_env [test_item] ?d ?d ''out.html'' ?w =
       (Inr (),
        ?w\<lparr>trace := trace ?w @
            [SpinnerStart ''Saving HTML'', Evaluate, WriteFile ''out.html'' ''<div>text</div>'',
             SpinnerSucceed (Some (''Saved HTML: '' @ ''out.html''))],
          console := console ?w @ [''EACCES'']\<rparr>)"
    using render_failure_is_thrown_write_error_is_printed
      [of ?w failing_write_env "''out.html''" ?d ?d "[test_item]" test_options,
       THEN conjunct2, THEN conjunct2, THEN conjunct2, THEN conjunct2, THEN conjunct2,
       THEN conjunct1, rule_format, OF printed]
    by simp
  have thrown: "cmd ?w = ''html''
        \<and> evaluate throwing_write_env (trace ?w @ [SpinnerStart ''Saving HTML'']) = Inr ''<div>text</div>''
        \<and> write_file throwing_write_env (trace ?w @ [SpinnerStart ''Saving HTML'', Evaluate])
              ''out.html'' ''<div>text</div>'' = Inl (Error ''ERR_INVALID_ARG_VALUE'')"
    by (simp add: throwing_write_env_def test_env_sel)
  have 3: "save throwing_write_env [test_item] ?d ?d ''out.html'' ?w =
       (Inl (Error ''ERR_INVALID_ARG_VALUE''),
        ?w\<lparr>trace := trace ?w @
            [SpinnerStart ''Saving HTML'', Evaluate, WriteFile ''out.html'' ''<div>text</div>'']\<rparr>)"
    using render_failure_is_thrown_write_error_is_printed
      [of ?w throwing_write_env "''out.html''" ?d ?d "[test_item]" test_options,
       THEN conjunct2, THEN conjunct2, THEN conjunct2, THEN conjunct2, THEN conjunct2,
       THEN conjunct2, rule_format, OF thrown] .
  from 1 2 3 show ?thesis by simp
qed

section \<open>The EPUB assembly\<close>

lemma cleanup_ignores_assembly:
  "cleanup (env\<lparr>epub_assembly := g\<rparr>) u = cleanup env u"
proof -
  have 1: "createDom (env\<lparr>epub_assembly := g\<rparr>) = createDom env"
    by (rule ext)+ (simp add: createDom_def new_JSDOM_url_def cong: sum.case_cong)
  have 2: "enhancePage (env\<lparr>epub_assembly := g\<rparr>) = enhancePage env"
    by (rule ext)+ (simp add: enhancePage_def cong: sum.case_cong)
  show ?thesis
    by (simp add: cleanup_def cleanup_try_def 1 2)
qed

lemma fragments_ignore_assembly:
  "print_fragments (env\<lparr>epub_assembly := g\<rparr>) html_text style_text =
     print_fragments env html_text style_text"
proof -
  have 1: "new_JSDOM (env\<lparr>epub_assembly := g\<rparr>) = new_JSDOM env"
    by (rule ext)+ (simp add: new_JSDOM_def)
  have 2: "template_fragment (env\<lparr>epub_assembly := g\<rparr>) = template_fragment env"
    by (rule ext)+ (simp add: template_fragment_def 1 cong: option.case_cong)
  have 3: "inline_style (env\<lparr>epub_assembly := g\<rparr>) = inline_style env"
    by (rule ext)+ (simp add: inline_style_def cong: option.case_cong if_cong)
  show ?thesis
    by (simp add: print_fragments_def 1 2 3 cong: sum.case_cong)
qed

lemma phases_ignore_assembly:
  "compose (env\<lparr>epub_assembly := g\<rparr>) items opts = compose env items opts"
  "stage (env\<lparr>epub_assembly := g\<rparr>) opts temp_file html_text = stage env opts temp_file html_text"
  "name_output (env\<lparr>epub_assembly := g\<rparr>) opts items = name_output env opts items"
  "save (env\<lparr>epub_assembly := g\<rparr>) items header footer path = save env items header footer path"
  "close_browser (env\<lparr>epub_assembly := g\<rparr>) = close_browser env"
proof -
  show "compose (env\<lparr>epub_assembly := g\<rparr>) items opts = compose env items opts"
    by (simp add: compose_def)
  show "stage (env\<lparr>epub_assembly := g\<rparr>) opts temp_file html_text = stage env opts temp_file html_text"
    by (simp add: stage_def pup_launch_def cong: if_cong)
  have "output_path (env\<lparr>epub_assembly := g\<rparr>) opts items = output_path env opts items"
    by (rule ext) (simp add: output_path_def)
  then show "name_output (env\<lparr>epub_assembly := g\<rparr>) opts items = name_output env opts items"
    by (simp add: name_output_def)
  have "save_pdf (env\<lparr>epub_assembly := g\<rparr>) header footer path = save_pdf env header footer path"
    "save_epub (env\<lparr>epub_assembly := g\<rparr>) items path = save_epub env items path"
    "save_html (env\<lparr>epub_assembly := g\<rparr>) path = save_html env path"
    by (simp_all add: save_pdf_def save_epub_def save_html_def fs_writeFile_def
        cong: option.case_cong)
  then show "save (env\<lparr>epub_assembly := g\<rparr>) items header footer path = save env items header footer path"
    by (simp add: save_def cong: if_cong)
  show "close_browser (env\<lparr>epub_assembly := g\<rparr>) = close_browser env"
    by (simp add: close_browser_def)
qed

lemma bundle_ignores_assembly:
  "bundle_items (env\<lparr>epub_assembly := g\<rparr>) items opts = bundle_items env items opts"
  by (simp add: bundle_items_def phases_ignore_assembly fragments_ignore_assembly
      cong: prod.case_cong)

lemma for_urls_ignores_assembly:
  "for_urls (env\<lparr>epub_assembly := g\<rparr>) opts urls items w = for_urls env opts urls items w"
  by (induction urls arbitrary: items w)
     (simp_all add: cleanup_ignores_assembly bundle_ignores_assembly
        cong: prod.case_cong sum.case_cong if_cong)

lemma generateOutput_ignores_assembly:
  "generateOutput (env\<lparr>epub_assembly := g\<rparr>) urls opts = generateOutput env urls opts"
  by (rule ext)
     (simp add: generateOutput_def for_urls_ignores_assembly bundle_ignores_assembly
        cong: prod.case_cong sum.case_cong if_cong)

lemma save_epub_reports_at_once:
  assumes "cmd w = ''epub''"
    and "items = item # rest"
    and "evaluate env (trace w @ [SpinnerStart ''Saving EPUB'']) = Inr bodyHTML"
    and "new_epub env (trace w @ [SpinnerStart ''Saving EPUB'', Evaluate]) (title item) bodyHTML path
         = Inr ()"
  shows "save env items header footer path w =
           (Inr (),
            w\<lparr>trace := trace w @
                 [SpinnerStart ''Saving EPUB'', Evaluate, NewEpub (title item) bodyHTML path,
                  SpinnerSucceed (Some (''Saved EPUB: '' @ path))]\<rparr>)"
  using assms by (simp add: save_def save_epub_def first_title_def step_defs)

lemma save_epub_constructor_throws:
  assumes "cmd w = ''epub''"
    and "items = item # rest"
    and "evaluate env (trace w @ [SpinnerStart ''Saving EPUB'']) = Inr bodyHTML"
    and "new_epub env (trace w @ [SpinnerStart ''Saving EPUB'', Evaluate]) (title item) bodyHTML path
         = Inl e"
  shows "save env items header footer path w =
           (Inl e,
            w\<lparr>trace := trace w @
                 [SpinnerStart ''Saving EPUB'', Evaluate, NewEpub (title item) bodyHTML path]\<rparr>)"
  using assms by (simp add: save_def save_epub_def first_title_def step_defs)

lemma bundle_closes_after_save:
  assumes "compose env items opts w = (Inr (temp_file, style_text, html_text), w1)"
    and "print_fragments env html_text style_text = Inr (header, footer)"
    and "stage env opts temp_file html_text w1 = (Inr (), w2)"
    and "save env items header footer
           (output_path env opts items
              (w2\<lparr>trace := trace w2 @ [SpinnerStart ''Setting output file name.'']\<rparr>))
           (w2\<lparr>trace := trace w2 @
              [SpinnerStart ''Setting output file name.'',
               SpinnerSucceed (Some (''Set output file name to: '' @
                 output_path env opts items
                   (w2\<lparr>trace := trace w2 @ [SpinnerStart ''Setting output file name.'']\<rparr>)))]\<rparr>)
         = (Inr (), w3)"
  shows "bundle_items env items opts w = close_browser env w3"
  unfolding bundle_after_staging [OF assms(1-3)] using assms(4)
  by (simp add: andThen_def)

lemma close_browser_returns:
  assumes "browser_close env (trace w @ [SpinnerStart ''Closing staging browser.'']) = Inr ()"
  shows "close_browser env w =
           (Inr (),
            w\<lparr>trace := trace w @
                 [SpinnerStart ''Closing staging browser.'', BrowserClose,
                  SpinnerSucceed (Some ''Staging browser closed.''),
                  SpinnerSucceed (Some ''All done.'')],
               open_browsers := open_browsers w - 1\<rparr>)"
  using assms by (simp add: close_browser_def step_defs)

text \<open>
  C10 as stated fails for what the constructor throws itself: the call
  \<open>new Epub(option, output_path)\<close> is in no \<open>try\<close>, so an exception of the constructor is
  thrown by \<open>bundle\<close> and by \<open>epub\<close>, and the browser is left open.
\<close>

theorem epub_constructor_failure_reaches_caller:
  "fst (epub throwing_epub_env [''http://a/1''] test_options world0) =
     Inl (Error ''constructor failed'')
   \<and> open_browsers (snd (epub throwing_epub_env [''http://a/1''] test_options world0)) = 1
   \<and> closes (trace (snd (epub throwing_epub_env [''http://a/1''] test_options world0))) = 0
   \<and> last (trace (snd (epub throwing_epub_env [''http://a/1''] test_options world0))) =
       NewEpub (Some ''Hello World!'') ''<div>text</div>'' ''Hello-World!.epub''"
  by (simp add: run_defs throwing_epub_env_def)

text \<open>
  C10, as the code has it. For the epub target the writer evaluates the body of the page
  and calls \<open>new Epub(option, output_path)\<close> with the title of the first item. When the
  constructor returns, the writer reports \<open>Saved EPUB\<close> at once; \<open>bundle\<close> then closes the
  browser and returns. How the assembly that the constructor has started ends is read
  nowhere: \<open>bundle\<close> and \<open>epub\<close> do the same and return the same whatever the assembly
  does, so its failure never reaches the caller. Only an exception that the constructor
  throws itself is thrown by the writer, before \<open>Saved EPUB\<close> is reported and before the
  browser is closed.
\<close>

theorem epub_assembly_is_not_awaited:
  "(\<forall>g. bundle_items (env\<lparr>epub_assembly := g\<rparr>) items opts w = bundle_items env items opts w)
   \<and> (\<forall>g urls. epub (env\<lparr>epub_assembly := g\<rparr>) urls opts w = epub env urls opts w)
   \<and> (\<forall>item rest bodyHTML header footer path.
        cmd w = ''epub'' \<and> items = item # rest
        \<and> evaluate env (trace w @ [SpinnerStart ''Saving EPUB'']) = Inr bodyHTML
        \<and> new_epub env (trace w @ [SpinnerStart ''Saving EPUB'', Evaluate]) (title item)
              bodyHTML path = Inr () \<longrightarrow>
        save env items header footer path w =
          (Inr (),
           w\<lparr>trace := trace w @
                [SpinnerStart ''Saving EPUB'', Evaluate, NewEpub (title item) bodyHTML path,
                 SpinnerSucceed (Some (''Saved EPUB: '' @ path))]\<rparr>))
   \<and> (\<forall>item rest bodyHTML header footer path e.
        cmd w = ''epub'' \<and> items = item # rest
        \<and> evaluate env (trace w @ [SpinnerStart ''Saving EPUB'']) = Inr bodyHTML
        \<and> new_epub env (trace w @ [SpinnerStart ''Saving EPUB'', Evaluate]) (title item)
              bodyHTML path = Inl e \<longrightarrow>
        save env items header footer path w =
          (Inl e,
           w\<lparr>trace := trace w @
                [SpinnerStart ''Saving EPUB'', Evaluate, NewEpub (title item) bodyHTML path]\<rparr>))
   \<and> (\<forall>temp_file style_text html_text header footer w1 w2 w3.
        compose env items opts w = (Inr (temp_file, style_text, html_text), w1)
        \<and> print_fragments env html_text style_text = Inr (header, footer)
        \<and> stage env opts temp_file html_text w1 = (Inr (), w2)
        \<and> save env items header footer
             (output_path env opts items
                (w2\<lparr>trace := trace w2 @ [SpinnerStart ''Setting output file name.'']\<rparr>))
             (w2\<lparr>trace := trace w2 @
                [SpinnerStart ''Setting output file name.'',
                 SpinnerSucceed (Some (''Set output file name to: '' @
                   output_path env opts items
                     (w2\<lparr>trace := trace w2 @ [SpinnerStart ''Setting output file name.'']\<rparr>)))]\<rparr>)
           = (Inr (), w3) \<longrightarrow>
        bundle_items env items opts w = close_browser env w3)
   \<and> (browser_close env (trace w @ [SpinnerStart ''Closing staging browser.'']) = Inr () \<longrightarrow>
        close_browser env w =
          (Inr (),
           w\<lparr>trace := trace w @
                [SpinnerStart ''Closing staging browser.'', BrowserClose,
                 SpinnerSucceed (Some ''Staging browser closed.''),
                 SpinnerSucceed (Some ''All done.'')],
              open_browsers := open_browsers w - 1\<rparr>))"
proof (intro conjI allI impI)
  fix g
  show "bundle_items (env\<lparr>epub_assembly := g\<rparr>) items opts w = bundle_items env items opts w"
    by (simp add: bundle_ignores_assembly)
next
  fix g urls
  show "epub (env\<lparr>epub_assembly := g\<rparr>) urls opts w = epub env urls opts w"
    by (simp add: epub_def generateOutput_ignores_assembly)
next
  fix item rest bodyHTML header footer path
  assume "cmd w = ''epub'' \<and> items = item # rest
        \<and> evaluate env (trace w @ [SpinnerStart ''Saving EPUB'']) = Inr bodyHTML
        \<and> new_epub env (trace w @ [SpinnerStart ''Saving EPUB'', Evaluate]) (title item)
              bodyHTML path = Inr ()"
  then show "save env items header footer path w =
          (Inr (),
           w\<lparr>trace := trace w @
                [SpinnerStart ''Saving EPUB'', Evaluate, NewEpub (title item) bodyHTML path,
                 SpinnerSucceed (Some (''Saved EPUB: '' @ path))]\<rparr>)"
    by (blast intro: save_epub_reports_at_once)
next
  fix item rest bodyHTML header footer path e
  assume "cmd w = ''epub'' \<and> items = item # rest
        \<and> evaluate env (trace w @ [SpinnerStart ''Saving EPUB'']) = Inr bodyHTML
        \<and> new_epub env (trace w @ [SpinnerStart ''Saving EPUB'', Evaluate]) (title item)
              bodyHTML path = Inl e"
  then show "save env items header footer path w =
          (Inl e,
           w\<lparr>trace := trace w @
                [SpinnerStart ''Saving EPUB'', Evaluate, NewEpub (title item) bodyHTML path]\<rparr>)"
    by (blast intro: save_epub_constructor_throws)
next
  fix temp_file style_text html_text header footer w1 w2 w3
  assume "compose env items opts w = (Inr (temp_file, style_text, html_text), w1)
        \<and> print_fragments env html_text style_text = Inr (header, footer)
        \<and> stage env opts temp_file html_text w1 = (Inr (), w2)
        \<and> save env items header footer
             (output_path env opts items
                (w2\<lparr>trace := trace w2 @ [SpinnerStart ''Setting output file name.'']\<rparr>))
             (w2\<lparr>trace := trace w2 @
                [SpinnerStart ''Setting output file name.'',
                 SpinnerSucceed (Some (''Set output file name to: '' @
                   output_path env opts items
                     (w2\<lparr>trace := trace w2 @ [SpinnerStart ''Setting output file name.'']\<rparr>)))]\<rparr>)
           = (Inr (), w3)"
  then show "bundle_items env items opts w = close_browser env w3"
    by (blast intro: bundle_closes_after_save)
next
  assume "browser_close env (trace w @ [SpinnerStart ''Closing staging browser.'']) = Inr ()"
  then show "close_browser env w =
          (Inr (),
           w\<lparr>trace := trace w @
                [SpinnerStart ''Closing staging browser.'', BrowserClose,
                 SpinnerSucceed (Some ''Staging browser closed.''),
                 SpinnerSucceed (Some ''All done.'')],
              open_browsers := open_browsers w - 1\<rparr>)"
    by (rule close_browser_returns)
qed

theorem epub_assembly_is_not_awaited_witness:
  "epub failing_assembly_env [''http://a/1''] test_options world0 =
     epub test_env [''http://a/1''] test_options world0
   \<and> fst (epub failing_assembly_env [''http://a/1''] test_options world0) = Inr ()
   \<and> open_browsers (snd (epub failing_assembly_env [''http://a/1''] test_options world0)) = 0
   \<and> save test_env [test_item] (parse_html test_env []) (parse_html test_env []) ''out.epub''
         (world0\<lparr>cmd := ''epub''\<rparr>) =
       (Inr (),
        world0\<lparr>cmd := ''epub'',
          trace := trace (world0\<lparr>cmd := ''epub''\<rparr>) @
            [SpinnerStart ''Saving EPUB'', Evaluate,
             NewEpub (title test_item) ''<div>text</div>'' ''out.epub'',
             SpinnerSucceed (Some (''Saved EPUB: '' @ ''out.epub''))]\<rparr>)
   \<and> save throwing_epub_env [test_item] (parse_html test_env []) (parse_html test_env [])
         ''out.epub'' (world0\<lparr>cmd := ''epub''\<rparr>) =
       (Inl (Error ''constructor failed''),
        world0\<lparr>cmd := ''epub'',
          trace := trace (world0\<lparr>cmd := ''epub''\<rparr>) @
            [SpinnerStart ''Saving EPUB'', Evaluate,
             NewEpub (title test_item) ''<div>text</div>'' ''out.epub'']\<rparr>)"
proof -
  let ?w = "world0\<lparr>cmd := ''epub''\<rparr>"
  let ?d = "parse_html test_env []"
  note inst = epub_assembly_is_not_awaited [of test_env "[test_item]" test_options]
  have 1: "epub failing_assembly_env [''http://a/1''] test_options world0 =
           epub test_env [''http://a/1''] test_options world0"
    unfolding failing_assembly_env_def
    using inst [of world0, THEN conjunct2, THEN conjunct1] by blast
  have "fst (epub test_env [''http://a/1''] test_options world0) = Inr ()"
    "open_browsers (snd (epub test_env [''http://a/1''] test_options world0)) = 0"
    by (simp_all add: run_defs)
  with 1 have 2: "fst (epub failing_assembly_env [''http://a/1''] test_options world0) = Inr ()"
    "open_browsers (snd (epub failing_assembly_env [''http://a/1''] test_options world0)) = 0"
    by simp_all
  have returned: "cmd ?w = ''epub'' \<and> [test_item] = test_item # []
        \<and> evaluate test_env (trace ?w @ [SpinnerStart ''Saving EPUB'']) = Inr ''<div>text</div>''
        \<and> new_epub test_env (trace ?w @ [SpinnerStart ''Saving EPUB'', Evaluate]) (title test_item)
              ''<div>text</div>'' ''out.epub'' = Inr ()"
    by (simp add: test_env_sel)
  have 3: "save test_env [test_item] ?d ?d ''out.epub'' ?w =
       (Inr (),
        ?w\<lparr>trace := trace ?w @
            [SpinnerStart ''Saving EPUB'', Evaluate,
             NewEpub (title test_item) ''<div>text</div>'' ''out.epub'',
             SpinnerSucceed (Some (''Saved EPUB: '' @ ''out.epub''))]\<rparr>)"
    using inst [of ?w, THEN conjunct2, THEN conjunct2, THEN conjunct1, rule_format, OF returned] .
  have thrown: "cmd ?w = ''epub'' \<and> [test_item] = test_item # []
        \<and> evaluate throwing_epub_env (trace ?w @ [SpinnerStart ''Saving EPUB'']) =
            Inr ''<div>text</div>''
        \<and> new_epub throwing_epub_env (trace ?w @ [SpinnerStart ''Saving EPUB'', Evaluate])
              (title test_item) ''<div>text</div>'' ''out.epub'' = Inl (Error ''constructor failed'')"
    by (simp add: throwing_epub_env_def test_env_sel)
  have 4: "save throwing_epub_env [test_item] ?d ?d ''out.epub'' ?w =
       (Inl (Error ''constructor failed''),
        ?w\<lparr>trace := trace ?w @
            [SpinnerStart ''Saving EPUB'', Evaluate,
             NewEpub (title test_item) ''<div>text</div>'' ''out.epub'']\<rparr>)"
    using epub_assembly_is_not_awaited
      [of throwing_epub_env "[test_item]" test_options ?w,
       THEN conjunct2, THEN conjunct2, THEN conjunct2, THEN conjunct1, rule_format, OF thrown] .
  from 1 2 3 4 show ?thesis by simp
qed

end
